theory Spec2Isabelle
  imports Main "HOL-Library.AList" "HOL-Library.Sublist"
begin

section \<open>JavaScript strings and plain objects\<close>

text \<open>
  Strings are character lists. The two characters the sources write with an escape
  are named here: the double quote and the line feed.
\<close>

definition dq :: char where
  "dq = CHR 0x22"

definition nl :: char where
  "nl = CHR 0x0A"

text \<open>
  \<^verbatim>\<open>s.replace(pat, rep)\<close> with a string pattern replaces the first occurrence of
  \<^verbatim>\<open>pat\<close> in \<^verbatim>\<open>s\<close>, wherever it stands, and leaves a string without an occurrence as
  it is.
\<close>

fun replace_first :: "string \<Rightarrow> string \<Rightarrow> string \<Rightarrow> string" where
  "replace_first pat rep [] = (if pat = [] then rep else [])"
| "replace_first pat rep (c # cs) =
     (if prefix pat (c # cs) then rep @ drop (length pat) (c # cs)
      else c # replace_first pat rep cs)"

text \<open>\<^verbatim>\<open>s.startsWith(p)\<close> and \<^verbatim>\<open>s.includes(p)\<close>.\<close>

definition startsWith :: "string \<Rightarrow> string \<Rightarrow> bool" where
  "startsWith s p = prefix p s"

definition includes_str :: "string \<Rightarrow> string \<Rightarrow> bool" where
  "includes_str s p = sublist p s"

text \<open>
  A plain object (an object literal, or an object built by \<^verbatim>\<open>JSON.parse\<close>) is the
  list of its own properties in the order \<^verbatim>\<open>Object.entries\<close> lists them; its keys
  are pairwise distinct. Reading \<^verbatim>\<open>obj[k]\<close> finds an own property first and then
  walks the prototype chain, so a key that names a member of \<^verbatim>\<open>Object.prototype\<close>
  yields that member when the object has no own property of the name.
\<close>

definition Object_prototype_names :: "string list" where
  "Object_prototype_names =
     [''constructor'', ''__defineGetter__'', ''__defineSetter__'', ''hasOwnProperty'',
      ''__lookupGetter__'', ''__lookupSetter__'', ''isPrototypeOf'',
      ''propertyIsEnumerable'', ''toString'', ''valueOf'', ''__proto__'',
      ''toLocaleString'']"

datatype 'a js_lookup = Own 'a | Inherited string | Absent

definition js_get :: "(string \<times> 'a) list \<Rightarrow> string \<Rightarrow> 'a js_lookup" where
  "js_get obj k =
     (case map_of obj k of
        Some v \<Rightarrow> Own v
      | None \<Rightarrow> if k \<in> set Object_prototype_names then Inherited k else Absent)"

text \<open>
  Every inherited member but \<^verbatim>\<open>__proto__\<close> is a built-in function, whose \<^verbatim>\<open>name\<close>
  is the property's name (\<^verbatim>\<open>constructor\<close> is the function \<^verbatim>\<open>Object\<close>);
  \<^verbatim>\<open>__proto__\<close> reads as \<^verbatim>\<open>Object.prototype\<close> itself, which has no \<^verbatim>\<open>name\<close>.
\<close>

definition member_name :: "string \<Rightarrow> string option" where
  "member_name m =
     (if m = ''__proto__'' then None
      else if m = ''constructor'' then Some ''Object''
      else Some m)"

text \<open>\<^verbatim>\<open>String(x)\<close> of an inherited member, as a template literal renders it.\<close>

definition member_to_string :: "string \<Rightarrow> string" where
  "member_to_string m =
     (case member_name m of
        None \<Rightarrow> ''[object Object]''
      | Some f \<Rightarrow> ''function '' @ f @ ''() { [native code] }'')"

text \<open>A string-valued property that may be \<^verbatim>\<open>undefined\<close>, in a template literal.\<close>

definition str_or_undefined :: "string option \<Rightarrow> string" where
  "str_or_undefined x = (case x of None \<Rightarrow> ''undefined'' | Some s \<Rightarrow> s)"

text \<open>Truthiness of such a property: \<^verbatim>\<open>undefined\<close> and the empty string are falsy.\<close>

definition truthy_str :: "string option \<Rightarrow> bool" where
  "truthy_str x = (case x of None \<Rightarrow> False | Some s \<Rightarrow> s \<noteq> [])"

section \<open>The provider manager (provider-manager.js)\<close>

text \<open>
  An entry of the provider catalog \<^verbatim>\<open>lmi-providers.json\<close>: an object whose
  properties, where present, are strings (\<^verbatim>\<open>requires_openai_auth\<close> a boolean). An
  absent property reads as \<^verbatim>\<open>undefined\<close>, here \<open>None\<close>. The catalog file is not
  part of the sources, so the catalog is a parameter of everything below.
\<close>

record lmiProvider =
  lmi_name :: "string option"
  lmi_base_url :: "string option"
  lmi_env_key :: "string option"
  lmi_wire_api :: "string option"
  lmi_requires_openai_auth :: "bool option"

type_synonym catalog = "(string \<times> lmiProvider) list"

text \<open>
  The parsed configuration \<^verbatim>\<open>this.lmiProviders\<close>. \<open>providers = None\<close> is a parsed
  document without a \<^verbatim>\<open>providers\<close> property.
\<close>

record lmiProviders =
  providers :: "catalog option"

record ProviderManager =
  lmiProviders :: lmiProviders

datatype js_exception = TypeError

text \<open>
  \<^verbatim>\<open>loadLMIProviders\<close>: \<open>configData\<close> is what \<^verbatim>\<open>readFileSync\<close> returns (\<open>None\<close>
  when it throws: the file is missing or unreadable), \<open>JSON_parse\<close> is \<^verbatim>\<open>JSON.parse\<close>
  (\<open>None\<close> when it throws). The \<^verbatim>\<open>catch\<close> branch returns \<^verbatim>\<open>{ providers: {} }\<close>;
  the diagnostic it prints to the error stream is not part of the state.
\<close>

definition loadLMIProviders ::
  "(string \<Rightarrow> lmiProviders option) \<Rightarrow> string option \<Rightarrow> lmiProviders" where
  "loadLMIProviders JSON_parse configData =
     (case configData of
        None \<Rightarrow> \<lparr>providers = Some []\<rparr>
      | Some d \<Rightarrow>
          (case JSON_parse d of
             None \<Rightarrow> \<lparr>providers = Some []\<rparr>
           | Some cfg \<Rightarrow> cfg))"

definition new_ProviderManager ::
  "(string \<Rightarrow> lmiProviders option) \<Rightarrow> string option \<Rightarrow> ProviderManager" where
  "new_ProviderManager JSON_parse configData =
     \<lparr>lmiProviders = loadLMIProviders JSON_parse configData\<rparr>"

text \<open>
  The value of \<^verbatim>\<open>env_key_instructions\<close>: a string, or the member of
  \<^verbatim>\<open>Object.prototype\<close> that the lookup in the instruction table reached.
\<close>

datatype js_value = Str string | Member string

definition instructions :: "(string \<times> string) list" where
  "instructions =
     [(''openai'', ''Get your API key from https://platform.openai.com/api-keys''),
      (''anthropic'', ''Get your API key from https://console.anthropic.com/''),
      (''google'', ''Get your API key from https://makersuite.google.com/app/apikey''),
      (''mistral'', ''Get your API key from https://console.mistral.ai/''),
      (''cohere'', ''Get your API key from https://dashboard.cohere.ai/''),
      (''huggingface'', ''Get your API key from https://huggingface.co/settings/tokens''),
      (''nvidia'', ''Get your API key from https://build.nvidia.com/''),
      (''xai'', ''Get your API key from https://console.x.ai/''),
      (''baidu'', ''Get your API key from https://console.bce.baidu.com/qianfan/''),
      (''alibaba'', ''Get your API key from https://dashscope.console.aliyun.com/''),
      (''tencent'', ''Get your API key from https://console.cloud.tencent.com/hunyuan/''),
      (''bytedance'', ''Get your API key from https://console.volcengine.com/ark''),
      (''iflytek'', ''Get your API key from https://www.xfyun.cn/''),
      (''zhipu'', ''Get your API key from https://open.bigmodel.cn/''),
      (''moonshot'', ''Get your API key from https://platform.moonshot.cn/''),
      (''deepseek'', ''Get your API key from https://platform.deepseek.com/''),
      (''qwen'', ''Get your API key from https://dashscope.console.aliyun.com/''),
      (''yi'', ''Get your API key from https://platform.lingyiwanwu.com/''),
      (''glm'', ''Get your API key from https://open.bigmodel.cn/''),
      (''claude'', ''Get your API key from https://console.anthropic.com/''),
      (''gemini'', ''Get your API key from https://makersuite.google.com/app/apikey''),
      (''gpt4'', ''Get your API key from https://platform.openai.com/api-keys''),
      (''gpt3'', ''Get your API key from https://platform.openai.com/api-keys''),
      (''llama'', ''Get your API key from https://llama-api.com/''),
      (''palm'', ''Get your API key from https://makersuite.google.com/app/apikey''),
      (''replicate'', ''Get your API key from https://replicate.com/account/api-tokens''),
      (''together'', ''Get your API key from https://api.together.xyz/settings/api-keys''),
      (''perplexity'', ''Get your API key from https://www.perplexity.ai/settings/api''),
      (''groq'', ''Get your API key from https://console.groq.com/keys''),
      (''fireworks'', ''Get your API key from https://fireworks.ai/''),
      (''openrouter'', ''Get your API key from https://openrouter.ai/keys'')]"

text \<open>
  \<^verbatim>\<open>instructions[providerId] || `Get your API key from the ${provider.name} website`\<close>:
  the left operand is returned when it is truthy (a non-empty string, or an inherited
  member), the template string otherwise.
\<close>

definition getEnvKeyInstructions :: "string \<Rightarrow> lmiProvider \<Rightarrow> js_value" where
  "getEnvKeyInstructions providerId provider =
     (case js_get instructions providerId of
        Own s \<Rightarrow>
          if s \<noteq> [] then Str s
          else Str (''Get your API key from the '' @ str_or_undefined (lmi_name provider)
                    @ '' website'')
      | Inherited m \<Rightarrow> Member m
      | Absent \<Rightarrow>
          Str (''Get your API key from the '' @ str_or_undefined (lmi_name provider)
               @ '' website''))"

datatype js_null = Null

record ModelProviderInfo =
  name :: "string option"
  base_url :: "string option"
  env_key :: "string option"
  env_key_instructions :: js_value
  wire_api :: "string option"
  query_params :: js_null
  http_headers :: js_null
  env_http_headers :: js_null
  request_max_retries :: js_null
  stream_max_retries :: js_null
  stream_idle_timeout_ms :: js_null
  requires_openai_auth :: bool

definition convertToRustFormat :: "string \<Rightarrow> lmiProvider \<Rightarrow> ModelProviderInfo" where
  "convertToRustFormat providerId lmiProvider =
     \<lparr>name = lmi_name lmiProvider,
      base_url = lmi_base_url lmiProvider,
      env_key = lmi_env_key lmiProvider,
      env_key_instructions = getEnvKeyInstructions providerId lmiProvider,
      wire_api = lmi_wire_api lmiProvider,
      query_params = Null,
      http_headers = Null,
      env_http_headers = Null,
      request_max_retries = Null,
      stream_max_retries = Null,
      stream_idle_timeout_ms = Null,
      requires_openai_auth =
        (case lmi_requires_openai_auth lmiProvider of None \<Rightarrow> False | Some b \<Rightarrow> b)\<rparr>"

text \<open>
  \<^verbatim>\<open>getAllProviders\<close>: the loop assigns \<^verbatim>\<open>providers[`lmi_${providerId}`]\<close> for each
  entry in turn. Assigning a property of a plain object replaces the value of an own
  property in place and adds a new property at the end, which is \<open>AList.update\<close>
  (no key written here is an array index or \<^verbatim>\<open>__proto__\<close>: each starts with
  \<^verbatim>\<open>lmi_\<close>). \<^verbatim>\<open>Object.entries(undefined)\<close> throws a TypeError.
\<close>

definition getAllProviders ::
  "ProviderManager \<Rightarrow> js_exception + (string \<times> ModelProviderInfo) list" where
  "getAllProviders this =
     (case providers (lmiProviders this) of
        None \<Rightarrow> Inl TypeError
      | Some entries \<Rightarrow>
          Inr (foldl (\<lambda>acc (providerId, providerConfig).
                        AList.update (''lmi_'' @ providerId)
                          (convertToRustFormat providerId providerConfig) acc)
                 [] entries))"

text \<open>
  The object an inherited member looks like to \<^verbatim>\<open>convertToRustFormat\<close>: it has a
  \<^verbatim>\<open>name\<close> when it is a function, and none of the other properties.
\<close>

definition member_as_provider :: "string \<Rightarrow> lmiProvider" where
  "member_as_provider m =
     \<lparr>lmi_name = member_name m, lmi_base_url = None, lmi_env_key = None,
      lmi_wire_api = None, lmi_requires_openai_auth = None\<rparr>"

text \<open>
  \<^verbatim>\<open>getProvider\<close>; \<open>None\<close> is \<^verbatim>\<open>null\<close>. Reading a property of \<^verbatim>\<open>undefined\<close> throws
  a TypeError.
\<close>

definition getProvider ::
  "ProviderManager \<Rightarrow> string \<Rightarrow> js_exception + ModelProviderInfo option" where
  "getProvider this providerId =
     (let cleanId = replace_first ''lmi_'' [] providerId in
      case providers (lmiProviders this) of
        None \<Rightarrow> Inl TypeError
      | Some entries \<Rightarrow>
          (case js_get entries cleanId of
             Absent \<Rightarrow> Inr None
           | Own providerConfig \<Rightarrow> Inr (Some (convertToRustFormat cleanId providerConfig))
           | Inherited m \<Rightarrow>
               Inr (Some (convertToRustFormat cleanId (member_as_provider m)))))"

definition listProviderIds :: "ProviderManager \<Rightarrow> js_exception + string list" where
  "listProviderIds this =
     (case providers (lmiProviders this) of
        None \<Rightarrow> Inl TypeError
      | Some entries \<Rightarrow> Inr (map (\<lambda>id. ''lmi_'' @ id) (map fst entries)))"

definition isLMIProvider :: "string \<Rightarrow> bool" where
  "isLMIProvider providerId = startsWith providerId ''lmi_''"

definition getCleanProviderId :: "string \<Rightarrow> string" where
  "getCleanProviderId providerId =
     (if isLMIProvider providerId then replace_first ''lmi_'' [] providerId
      else providerId)"

text \<open>The text one pass of the loop of \<^verbatim>\<open>generateTOMLConfig\<close> adds to \<^verbatim>\<open>toml\<close>.\<close>

definition toml_block :: "string \<times> ModelProviderInfo \<Rightarrow> string" where
  "toml_block entry =
     (case entry of (providerId, provider) \<Rightarrow>
        ''[model_providers.'' @ providerId @ '']'' @ [nl]
        @ ''name = '' @ [dq] @ str_or_undefined (name provider) @ [dq, nl]
        @ (if truthy_str (base_url provider)
           then ''base_url = '' @ [dq] @ str_or_undefined (base_url provider) @ [dq, nl]
           else [])
        @ (if truthy_str (env_key provider)
           then ''env_key = '' @ [dq] @ str_or_undefined (env_key provider) @ [dq, nl]
           else [])
        @ (case env_key_instructions provider of
             Str s \<Rightarrow>
               if s \<noteq> [] then ''env_key_instructions = '' @ [dq] @ s @ [dq, nl] else []
           | Member m \<Rightarrow>
               ''env_key_instructions = '' @ [dq] @ member_to_string m @ [dq, nl])
        @ ''wire_api = '' @ [dq] @ str_or_undefined (wire_api provider) @ [dq, nl]
        @ ''requires_openai_auth = ''
        @ (if requires_openai_auth provider then ''true'' else ''false'') @ [nl, nl])"

definition generateTOMLConfig :: "ProviderManager \<Rightarrow> js_exception + string" where
  "generateTOMLConfig this =
     (case getAllProviders this of
        Inl e \<Rightarrow> Inl e
      | Inr provs \<Rightarrow>
          Inr (foldl (\<lambda>toml entry. toml @ toml_block entry)
                 (''[model_providers]'' @ [nl, nl]) provs))"

section \<open>The command-line tool (lmi-cli.js): addToConfig\<close>

text \<open>
  The configuration file at \<^verbatim>\<open>~/.icodex/config.toml\<close>: its content (\<open>None\<close> when
  the file does not exist), and whether reading and writing it succeed.
\<close>

record config_file =
  content :: "string option"
  read_ok :: bool
  write_ok :: bool

datatype cli_outcome = Exit1 | AlreadyConfigured | Added

text \<open>
  \<^verbatim>\<open>addToConfig\<close> returns the outcome and the file afterwards. A missing file, and
  any exception inside the \<^verbatim>\<open>try\<close> block, end in \<^verbatim>\<open>process.exit(1)\<close> with the file
  untouched.
\<close>

definition addToConfig :: "ProviderManager \<Rightarrow> config_file \<Rightarrow> cli_outcome \<times> config_file" where
  "addToConfig providerManager file =
     (case content file of
        None \<Rightarrow> (Exit1, file)
      | Some existingConfig \<Rightarrow>
          if \<not> read_ok file then (Exit1, file)
          else
            (case generateTOMLConfig providerManager of
               Inl e \<Rightarrow> (Exit1, file)
             | Inr lmiConfig \<Rightarrow>
                 if includes_str existingConfig ''[model_providers.lmi_''
                 then (AlreadyConfigured, file)
                 else if \<not> write_ok file then (Exit1, file)
                 else
                   (Added,
                    file\<lparr>content :=
                      Some (existingConfig @ [nl, nl]
                            @ ''# Large Models Interface Providers'' @ [nl]
                            @ lmiConfig)\<rparr>)))"

section \<open>JavaScript values, JSON.stringify and template literals\<close>

text \<open>
  The values that cross the bridge: what \<^verbatim>\<open>JSON.parse\<close> builds from a request line
  and what the provider-invocation library resolves with. Numbers are integers;
  \<^verbatim>\<open>JSON.stringify\<close> writes an integer of magnitude up to \<open>2^53\<close> in plain decimal.
  A \<open>JObj\<close> lists the own properties of an object in order. Every such value can be
  serialised, so \<^verbatim>\<open>JSON.stringify\<close> does not throw on it.
\<close>

datatype jsval =
    JUndefined | JNull | JBool bool | JNum int | JStr string
  | JArr "jsval list" | JObj "(string \<times> jsval) list"

text \<open>An \<^verbatim>\<open>Error\<close> object: its \<^verbatim>\<open>message\<close> and its \<^verbatim>\<open>stack\<close>, both strings.\<close>

record js_error =
  message :: string
  stack :: string

text \<open>\<^verbatim>\<open>parts.join(sep)\<close>.\<close>

fun join :: "string \<Rightarrow> string list \<Rightarrow> string" where
  "join sep [] = []"
| "join sep [x] = x"
| "join sep (x # y # ys) = x @ sep @ join sep (y # ys)"

definition hex_digit :: "nat \<Rightarrow> char" where
  "hex_digit n = ''0123456789abcdef'' ! (n mod 16)"

fun show_nat :: "nat \<Rightarrow> string" where
  "show_nat n =
     (if n < 10 then [hex_digit n] else show_nat (n div 10) @ [hex_digit (n mod 10)])"

definition show_int :: "int \<Rightarrow> string" where
  "show_int i = (if i < 0 then ''-'' @ show_nat (nat (- i)) else show_nat (nat i))"

text \<open>
  How \<^verbatim>\<open>JSON.stringify\<close> writes one character of a string: the quote and the
  backslash are escaped, the control characters below \<^verbatim>\<open>0x20\<close> are written as
  \<^verbatim>\<open>\b \f \n \r \t\<close> or as \<^verbatim>\<open>\u00XX\<close>, and every other character stands for itself.
\<close>

definition escape_char :: "char \<Rightarrow> string" where
  "escape_char c =
     (if c = CHR 0x22 then [CHR 0x5C, CHR 0x22]
      else if c = CHR 0x5C then [CHR 0x5C, CHR 0x5C]
      else if c = CHR 0x08 then [CHR 0x5C, CHR ''b'']
      else if c = CHR 0x0C then [CHR 0x5C, CHR ''f'']
      else if c = CHR 0x0A then [CHR 0x5C, CHR ''n'']
      else if c = CHR 0x0D then [CHR 0x5C, CHR ''r'']
      else if c = CHR 0x09 then [CHR 0x5C, CHR ''t'']
      else if of_char c < (32::nat)
        then [CHR 0x5C, CHR ''u'', CHR ''0'', CHR ''0'',
              hex_digit (of_char c div 16), hex_digit (of_char c mod 16)]
      else [c])"

definition quote :: "string \<Rightarrow> string" where
  "quote s = [dq] @ concat (map escape_char s) @ [dq]"

text \<open>
  \<^verbatim>\<open>JSON.stringify(v)\<close> with no indentation argument, for a value \<open>v\<close> other than
  \<^verbatim>\<open>undefined\<close>: a property whose value is \<^verbatim>\<open>undefined\<close> is left out of an
  object, and \<^verbatim>\<open>undefined\<close> inside an array is written \<^verbatim>\<open>null\<close>.
\<close>

fun JSON_stringify :: "jsval \<Rightarrow> string" where
  "JSON_stringify JUndefined = ''null''"
| "JSON_stringify JNull = ''null''"
| "JSON_stringify (JBool b) = (if b then ''true'' else ''false'')"
| "JSON_stringify (JNum n) = show_int n"
| "JSON_stringify (JStr s) = quote s"
| "JSON_stringify (JArr vs) = ''['' @ join '','' (map JSON_stringify vs) @ '']''"
| "JSON_stringify (JObj kvs) =
     ''{'' @ join '',''
        (map (\<lambda>kv. quote (fst kv) @ '':'' @ JSON_stringify (snd kv))
           (filter (\<lambda>kv. snd kv \<noteq> JUndefined) kvs)) @ ''}''"

text \<open>
  Reading one of the properties \<^verbatim>\<open>type\<close>, \<^verbatim>\<open>provider\<close>, \<^verbatim>\<open>model\<close>, \<^verbatim>\<open>messages\<close>
  and \<^verbatim>\<open>options\<close> of a parsed value other than \<^verbatim>\<open>null\<close>: the own property of an
  object, and \<^verbatim>\<open>undefined\<close> otherwise (no prototype has a member of these names).
\<close>

definition get_prop :: "jsval \<Rightarrow> string \<Rightarrow> jsval" where
  "get_prop v k =
     (case v of
        JObj kvs \<Rightarrow> (case map_of kvs k of Some x \<Rightarrow> x | None \<Rightarrow> JUndefined)
      | _ \<Rightarrow> JUndefined)"

section \<open>The model bridge service (model-bridge.js)\<close>

text \<open>
  What the runtime supplies: \<^verbatim>\<open>JSON.parse\<close> (\<open>Inl\<close> the SyntaxError it throws),
  the stack trace it attaches to an error of a given class and message raised in
  \<^verbatim>\<open>handleRequest\<close>, and the text \<^verbatim>\<open>Number.prototype.toString\<close> gives for a
  number.
\<close>

record runtime =
  JSON_parse :: "string \<Rightarrow> js_error + jsval"
  stack_trace :: "string \<Rightarrow> string \<Rightarrow> string"
  Number_toString :: "int \<Rightarrow> string"

text \<open>
  \<^verbatim>\<open>String(v)\<close>, as a template literal \<^verbatim>\<open>`${v}`\<close> converts a parsed value; \<open>None\<close>
  when the conversion throws the TypeError \<^verbatim>\<open>Cannot convert object to primitive
  value\<close>. A number is written by the runtime's \<^verbatim>\<open>Number.prototype.toString\<close>. An
  array is converted by \<^verbatim>\<open>Array.prototype.toString\<close>, which joins the conversions of
  its elements (\<^verbatim>\<open>null\<close> and \<^verbatim>\<open>undefined\<close> as the empty string) with commas. An
  object without an own property \<^verbatim>\<open>toString\<close> is converted by the inherited
  \<^verbatim>\<open>Object.prototype.toString\<close>. An own property \<^verbatim>\<open>toString\<close> of a parsed object
  is never a function, so the conversion skips it and turns to \<^verbatim>\<open>valueOf\<close>, which
  is an own property that is no function either, or the inherited one, which returns
  the object itself: no primitive value is found and the conversion throws.
\<close>

fun to_string :: "runtime \<Rightarrow> jsval \<Rightarrow> string option" where
  "to_string rt JUndefined = Some ''undefined''"
| "to_string rt JNull = Some ''null''"
| "to_string rt (JBool b) = Some (if b then ''true'' else ''false'')"
| "to_string rt (JNum n) = Some (Number_toString rt n)"
| "to_string rt (JStr s) = Some s"
| "to_string rt (JArr vs) =
     map_option (join '','')
       (those (map (\<lambda>v. if v = JUndefined \<or> v = JNull then Some [] else to_string rt v) vs))"
| "to_string rt (JObj kvs) =
     (if map_of kvs ''toString'' = None then Some ''[object Object]'' else None)"

text \<open>
  A call of the provider-invocation library \<^verbatim>\<open>this.lmi\<close>; \<open>ChatCompletion provider
  model messages options\<close> is the call with the argument
  \<^verbatim>\<open>{provider, model, messages, ...options}\<close>. The library is opaque: the promise a
  call returns settles later, with a value or with an error.
\<close>

datatype lmi_call =
    ChatCompletion jsval jsval jsval jsval
  | ListModels jsval
  | ListProviders

datatype lmi_result = Resolved jsval | Rejected js_error

text \<open>
  \<^verbatim>\<open>handleRequest\<close> up to its first suspension: it throws (destructuring
  \<^verbatim>\<open>null\<close>, or the \<^verbatim>\<open>default\<close> branch of the \<^verbatim>\<open>switch\<close>), or it enters one of the
  three handlers, which calls the library and awaits the result. The \<^verbatim>\<open>default\<close>
  branch builds the message of its error with a template literal; when the
  conversion of \<^verbatim>\<open>type\<close> throws, that TypeError is what \<^verbatim>\<open>handleRequest\<close> throws.
\<close>

datatype dispatch = Calls lmi_call | Throws js_error

definition destructure_null_message :: string where
  "destructure_null_message =
     ''Cannot destructure property '' @ [CHR 0x27] @ ''type'' @ [CHR 0x27] @ '' of ''
     @ [CHR 0x27] @ ''request'' @ [CHR 0x27] @ '' as it is null.''"

definition handleRequest :: "runtime \<Rightarrow> jsval \<Rightarrow> dispatch" where
  "handleRequest rt request =
     (if request = JNull
      then Throws
        \<lparr>message = destructure_null_message,
         stack = stack_trace rt ''TypeError'' destructure_null_message\<rparr>
      else
        let type = get_prop request ''type'';
            provider = get_prop request ''provider'';
            model = get_prop request ''model'';
            messages = get_prop request ''messages'';
            options =
              (if get_prop request ''options'' = JUndefined then JObj []
               else get_prop request ''options'')
        in
          if type = JStr ''chat_completion''
            then Calls (ChatCompletion provider model messages options)
          else if type = JStr ''list_models'' then Calls (ListModels provider)
          else if type = JStr ''list_providers'' then Calls ListProviders
          else
            (case to_string rt type of
               Some text \<Rightarrow>
                 Throws
                   \<lparr>message = ''Unknown request type: '' @ text,
                    stack = stack_trace rt ''Error'' (''Unknown request type: '' @ text)\<rparr>
             | None \<Rightarrow>
                 Throws
                   \<lparr>message = ''Cannot convert object to primitive value'',
                    stack = stack_trace rt ''TypeError''
                      ''Cannot convert object to primitive value''\<rparr>))"

text \<open>
  The three handlers, from the point where the awaited library call has settled:
  each wraps the value it resolved with, and catches the error it rejected with.
\<close>

definition handleChatCompletion :: "lmi_result \<Rightarrow> jsval" where
  "handleChatCompletion settled =
     (case settled of
        Resolved response \<Rightarrow> JObj [(''success'', JBool True), (''data'', response)]
      | Rejected error \<Rightarrow>
          JObj [(''success'', JBool False), (''error'', JStr (message error))])"

definition handleListModels :: "lmi_result \<Rightarrow> jsval" where
  "handleListModels settled =
     (case settled of
        Resolved models \<Rightarrow> JObj [(''success'', JBool True), (''data'', models)]
      | Rejected error \<Rightarrow>
          JObj [(''success'', JBool False), (''error'', JStr (message error))])"

definition handleListProviders :: "lmi_result \<Rightarrow> jsval" where
  "handleListProviders settled =
     (case settled of
        Resolved provs \<Rightarrow> JObj [(''success'', JBool True), (''data'', provs)]
      | Rejected error \<Rightarrow>
          JObj [(''success'', JBool False), (''error'', JStr (message error))])"

definition handler_result :: "lmi_call \<Rightarrow> lmi_result \<Rightarrow> jsval" where
  "handler_result c settled =
     (case c of
        ChatCompletion provider model messages options \<Rightarrow> handleChatCompletion settled
      | ListModels provider \<Rightarrow> handleListModels settled
      | ListProviders \<Rightarrow> handleListProviders settled)"

text \<open>
  The state of the service. \<open>stdout\<close> is everything written to the output stream so
  far. The listener of the \<^verbatim>\<open>line\<close> event is an \<^verbatim>\<open>async\<close> function, and the event
  emitter does not wait for the promise it returns: a listener that reaches
  \<^verbatim>\<open>await this.handleRequest(request)\<close> is suspended there, and the next line is
  handled while it waits. \<open>pending\<close> holds the suspended listeners, numbered in the
  order of their lines: one waits for a library call to settle, or for the rejection
  that \<^verbatim>\<open>handleRequest\<close> has already raised to be delivered.
\<close>

datatype suspended = AwaitsCall lmi_call | AwaitsRejection js_error

record bridge =
  stdout :: string
  pending :: "(nat \<times> suspended) list"
  next_id :: nat
  running :: bool

definition init_bridge :: bridge where
  "init_bridge = \<lparr>stdout = [], pending = [], next_id = 0, running = True\<rparr>"

text \<open>\<^verbatim>\<open>console.log(text)\<close> writes the text and one line feed.\<close>

definition console_log :: "string \<Rightarrow> bridge \<Rightarrow> bridge" where
  "console_log text s = s\<lparr>stdout := stdout s @ text @ [nl]\<rparr>"

definition sendResponse :: "jsval \<Rightarrow> bridge \<Rightarrow> bridge" where
  "sendResponse response s = console_log (JSON_stringify response) s"

definition errorResponse :: "js_error \<Rightarrow> jsval" where
  "errorResponse error =
     JObj [(''success'', JBool False), (''error'', JStr (message error)),
           (''stack'', JStr (stack error))]"

definition sendError :: "js_error \<Rightarrow> bridge \<Rightarrow> bridge" where
  "sendError error s = console_log (JSON_stringify (errorResponse error)) s"

definition suspend :: "suspended \<Rightarrow> bridge \<Rightarrow> bridge" where
  "suspend w s = s\<lparr>pending := pending s @ [(next_id s, w)], next_id := Suc (next_id s)\<rparr>"

definition resume :: "nat \<Rightarrow> bridge \<Rightarrow> bridge" where
  "resume i s = s\<lparr>pending := filter (\<lambda>p. fst p \<noteq> i) (pending s)\<rparr>"

text \<open>
  What happens to the service: a line arrives on the input stream; the library call
  awaited by listener \<open>i\<close> settles; the rejection listener \<open>i\<close> awaits is delivered;
  the process receives SIGINT or SIGTERM.
\<close>

datatype event = Line string | Settle nat lmi_result | Deliver nat | Signal

text \<open>The listener of the \<^verbatim>\<open>line\<close> event, up to its first suspension.\<close>

definition on_line :: "runtime \<Rightarrow> string \<Rightarrow> bridge \<Rightarrow> bridge" where
  "on_line rt line s =
     (case JSON_parse rt line of
        Inl error \<Rightarrow> sendError error s
      | Inr request \<Rightarrow>
          (case handleRequest rt request of
             Calls c \<Rightarrow> suspend (AwaitsCall c) s
           | Throws error \<Rightarrow> suspend (AwaitsRejection error) s))"

text \<open>
  One event. A resumed listener sends its response (\<^verbatim>\<open>sendResponse\<close>) or, in its
  \<^verbatim>\<open>catch\<close> branch, the error (\<^verbatim>\<open>sendError\<close>). A signal runs \<^verbatim>\<open>cleanup\<close> and
  \<^verbatim>\<open>process.exit(0)\<close>; nothing happens after the process has exited.
\<close>

definition step :: "runtime \<Rightarrow> bridge \<Rightarrow> event \<Rightarrow> bridge" where
  "step rt s ev =
     (if \<not> running s then s
      else
        (case ev of
           Line line \<Rightarrow> on_line rt line s
         | Settle i settled \<Rightarrow>
             (case map_of (pending s) i of
                Some (AwaitsCall c) \<Rightarrow> sendResponse (handler_result c settled) (resume i s)
              | _ \<Rightarrow> s)
         | Deliver i \<Rightarrow>
             (case map_of (pending s) i of
                Some (AwaitsRejection error) \<Rightarrow> sendError error (resume i s)
              | _ \<Rightarrow> s)
         | Signal \<Rightarrow> s\<lparr>running := False, pending := []\<rparr>))"

definition run :: "runtime \<Rightarrow> bridge \<Rightarrow> event list \<Rightarrow> bridge" where
  "run rt s evs = foldl (step rt) s evs"

text \<open>
  Every suspended listener was numbered before the current \<open>next_id\<close>, and no two
  share a number. The initial state has both properties and every event keeps them
  (\<open>fresh_ids_run\<close> and \<open>run_accounting\<close> below).
\<close>

definition fresh_ids :: "bridge \<Rightarrow> bool" where
  "fresh_ids s = (\<forall>p \<in> set (pending s). fst p < next_id s)"

definition well_formed :: "bridge \<Rightarrow> bool" where
  "well_formed s = (running s \<and> fresh_ids s \<and> distinct (map fst (pending s)))"

text \<open>The number of response lines written so far, and the events that are lines.\<close>

definition responses_written :: "bridge \<Rightarrow> nat" where
  "responses_written s = count_list (stdout s) nl"

fun is_line :: "event \<Rightarrow> bool" where
  "is_line (Line l) = True"
| "is_line ev = False"

text \<open>
  The response object the listener of a line sends when the library call it awaits,
  if it awaits one, settles with \<open>settled\<close>.
\<close>

definition response_to :: "runtime \<Rightarrow> string \<Rightarrow> lmi_result \<Rightarrow> jsval" where
  "response_to rt line settled =
     (case JSON_parse rt line of
        Inl error \<Rightarrow> errorResponse error
      | Inr request \<Rightarrow>
          (case handleRequest rt request of
             Calls c \<Rightarrow> handler_result c settled
           | Throws error \<Rightarrow> errorResponse error))"

text \<open>
  The events of a session in which every line's listener is resumed before the next
  line arrives, as with a client that waits for each response before it sends the
  next request: each line comes with the outcome of its library call, and \<open>n\<close> is
  the number the next suspended listener gets.
\<close>

fun serial_events :: "runtime \<Rightarrow> nat \<Rightarrow> (string \<times> lmi_result) list \<Rightarrow> event list" where
  "serial_events rt n [] = []"
| "serial_events rt n ((line, settled) # rest) =
     (case JSON_parse rt line of
        Inl error \<Rightarrow> Line line # serial_events rt n rest
      | Inr request \<Rightarrow>
          (case handleRequest rt request of
             Calls c \<Rightarrow> Line line # Settle n settled # serial_events rt (Suc n) rest
           | Throws error \<Rightarrow> Line line # Deliver n # serial_events rt (Suc n) rest))"

section \<open>Sample inputs\<close>

text \<open>A provider manager whose catalog was loaded: \<^verbatim>\<open>{ providers: entries }\<close>.\<close>

definition manager_of :: "catalog \<Rightarrow> ProviderManager" where
  "manager_of entries = \<lparr>lmiProviders = \<lparr>providers = Some entries\<rparr>\<rparr>"

definition openai_entry :: lmiProvider where
  "openai_entry =
     \<lparr>lmi_name = Some ''iEchor'', lmi_base_url = Some ''https://api.openai.com/v1'',
      lmi_env_key = Some ''OPENAI_API_KEY'', lmi_wire_api = Some ''lmi_bridge'',
      lmi_requires_openai_auth = None\<rparr>"

definition ollama_entry :: lmiProvider where
  "ollama_entry =
     \<lparr>lmi_name = Some ''Ollama'', lmi_base_url = None, lmi_env_key = None,
      lmi_wire_api = Some ''chat'', lmi_requires_openai_auth = Some False\<rparr>"

text \<open>An existing configuration file that can be read and written.\<close>

definition writable_file :: "string \<Rightarrow> config_file" where
  "writable_file doc = \<lparr>content = Some doc, read_ok = True, write_ok = True\<rparr>"

text \<open>
  Request lines with the values \<^verbatim>\<open>JSON.parse\<close> builds from them, and a runtime
  whose \<^verbatim>\<open>JSON.parse\<close> knows these lines and rejects every other line, and which
  writes the small integers of the samples in decimal.
\<close>

definition chat_line :: string where
  "chat_line =
     ''{\"type\":\"chat_completion\",\"provider\":\"openai\",\"model\":\"gpt-4\",\"messages\":[]}''"

definition chat_request :: jsval where
  "chat_request =
     JObj [(''type'', JStr ''chat_completion''), (''provider'', JStr ''openai''),
           (''model'', JStr ''gpt-4''), (''messages'', JArr [])]"

definition list_line :: string where
  "list_line = ''{\"type\":\"list_providers\"}''"

definition list_request :: jsval where
  "list_request = JObj [(''type'', JStr ''list_providers'')]"

definition models_line :: string where
  "models_line = ''{\"type\":\"list_models\",\"provider\":\"openai\"}''"

definition models_request :: jsval where
  "models_request = JObj [(''type'', JStr ''list_models''), (''provider'', JStr ''openai'')]"

definition ping_line :: string where
  "ping_line = ''{\"type\":\"ping\"}''"

definition ping_request :: jsval where
  "ping_request = JObj [(''type'', JStr ''ping'')]"

definition object_type_line :: string where
  "object_type_line = ''{\"type\":{\"toString\":\"x\"}}''"

definition object_type_request :: jsval where
  "object_type_request = JObj [(''type'', JObj [(''toString'', JStr ''x'')])]"

definition syntax_error :: js_error where
  "syntax_error =
     \<lparr>message = ''Unexpected token'',
      stack = ''SyntaxError: Unexpected token'' @ [nl] @ ''    at JSON.parse (<anonymous>)''\<rparr>"

definition not_found_error :: js_error where
  "not_found_error =
     \<lparr>message = ''provider not found'', stack = ''Error: provider not found''\<rparr>"

definition example_runtime :: runtime where
  "example_runtime =
     \<lparr>JSON_parse =
        (\<lambda>line. if line = chat_line then Inr chat_request
                else if line = list_line then Inr list_request
                else if line = models_line then Inr models_request
                else if line = ping_line then Inr ping_request
                else if line = object_type_line then Inr object_type_request
                else Inl syntax_error),
      stack_trace = (\<lambda>cls msg. cls @ '': '' @ msg @ [nl] @ ''    at handleRequest''),
      Number_toString = show_int\<rparr>"

section \<open>Properties of the provider manager\<close>

subsection \<open>Auxiliary facts\<close>

lemma update_fresh: "k \<notin> fst ` set al \<Longrightarrow> AList.update k v al = al @ [(k, v)]"
  by (induction al) auto

lemma foldl_update_fresh:
  "distinct (map fst entries) \<Longrightarrow> inj f \<Longrightarrow>
   (\<forall>k \<in> fst ` set entries. f k \<notin> fst ` set acc) \<Longrightarrow>
   foldl (\<lambda>acc (k, e). AList.update (f k) (g k e) acc) acc entries
   = acc @ map (\<lambda>(k, e). (f k, g k e)) entries"
proof (induction entries arbitrary: acc)
  case Nil
  then show ?case by simp
next
  case (Cons p entries)
  obtain k e where p: "p = (k, e)" by (cases p)
  have fresh: "f k \<notin> fst ` set acc" using Cons.prems(3) p by simp
  have d: "distinct (map fst entries)" and knot: "k \<notin> fst ` set entries"
    using Cons.prems(1) p by auto
  have "\<forall>k' \<in> fst ` set entries. f k' \<notin> fst ` set (acc @ [(f k, g k e)])"
    using Cons.prems(2,3) knot by (auto dest: injD)
  from Cons.IH[OF d Cons.prems(2) this] show ?case
    by (simp add: p update_fresh[OF fresh])
qed

lemma distinct_map_inj: "inj f \<Longrightarrow> distinct xs \<Longrightarrow> distinct (map f xs)"
  by (simp add: distinct_map inj_on_def)

lemma inj_lmi: "inj (\<lambda>k. ''lmi_'' @ k)"
  by (simp add: inj_on_def)

lemma map_fst_derived:
  "map fst (map (\<lambda>(k, e). (f k, g k e)) entries) = map f (map fst entries)"
  by (induction entries) auto

lemma getAllProviders_distinct:
  assumes "distinct (map fst entries)"
  shows "getAllProviders (manager_of entries) =
           Inr (map (\<lambda>(k, e). (''lmi_'' @ k, convertToRustFormat k e)) entries)"
  using foldl_update_fresh[OF assms inj_lmi, of "[]" convertToRustFormat]
  by (simp add: getAllProviders_def manager_of_def)

lemma replace_first_none: "\<not> sublist pat s \<Longrightarrow> replace_first pat rep s = s"
proof (induction s)
  case Nil
  then show ?case by auto
next
  case (Cons c cs)
  then show ?case by (auto simp: sublist_Cons_right)
qed

lemma foldl_append_blocks:
  "foldl (\<lambda>toml entry. toml @ toml_block entry) init provs
   = init @ concat (map toml_block provs)"
  by (induction provs arbitrary: init) auto

lemma toml_block_starts:
  "\<exists>rest. toml_block (''lmi_'' @ k, c) = ''[model_providers.lmi_'' @ rest"
  by (simp add: toml_block_def)

lemma generateTOMLConfig_marker:
  assumes "distinct (map fst entries)" and "entries \<noteq> []"
  shows "\<exists>toml. generateTOMLConfig (manager_of entries) = Inr toml
           \<and> includes_str toml ''[model_providers.lmi_''"
proof -
  obtain k e rest where en: "entries = (k, e) # rest"
    using assms(2) by (cases entries) auto
  let ?provs = "map (\<lambda>(k, e). (''lmi_'' @ k, convertToRustFormat k e)) entries"
  have a: "getAllProviders (manager_of entries) = Inr ?provs"
    by (rule getAllProviders_distinct[OF assms(1)])
  obtain r where r:
    "toml_block (''lmi_'' @ k, convertToRustFormat k e) = ''[model_providers.lmi_'' @ r"
    using toml_block_starts by blast
  let ?init = "''[model_providers]'' @ [nl, nl]"
  let ?tail = "concat (map toml_block
                 (map (\<lambda>(k, e). (''lmi_'' @ k, convertToRustFormat k e)) rest))"
  have "generateTOMLConfig (manager_of entries)
          = Inr (?init @ ''[model_providers.lmi_'' @ (r @ ?tail))"
    using r by (simp add: generateTOMLConfig_def a[unfolded en] foldl_append_blocks en
        del: append.simps)
  moreover have
    "includes_str (?init @ ''[model_providers.lmi_'' @ (r @ ?tail)) ''[model_providers.lmi_''"
    unfolding includes_str_def by (rule sublist_appendI)
  ultimately show ?thesis by blast
qed

lemma includes_append: "includes_str b p \<Longrightarrow> includes_str (a @ b) p"
  unfolding includes_str_def sublist_def by (metis append.assoc)

lemma instructions_nonempty: "map_of instructions k = Some s \<Longrightarrow> s \<noteq> []"
  unfolding instructions_def by (auto split: if_splits)

text \<open>
  For a key that is not the name of a member of \<^verbatim>\<open>Object.prototype\<close> (and for every
  key of the instruction table), \<^verbatim>\<open>getEnvKeyInstructions\<close> returns a non-empty string:
  the table's string, or the generic sentence built from the display name.
\<close>

lemma getEnvKeyInstructions_string:
  assumes "k \<notin> set Object_prototype_names \<or> map_of instructions k \<noteq> None"
  shows "\<exists>s. getEnvKeyInstructions k p = Str s \<and> s \<noteq> []
     \<and> (\<forall>t. map_of instructions k = Some t \<longrightarrow> s = t)
     \<and> (map_of instructions k = None \<longrightarrow>
           s = ''Get your API key from the '' @ str_or_undefined (lmi_name p) @ '' website'')"
  using assms instructions_nonempty[of k]
  by (auto simp: getEnvKeyInstructions_def js_get_def split: option.splits)

subsection \<open>Deriving the registry\<close>

text \<open>
  Claim C5. For every catalog (a plain object, so its keys are pairwise distinct,
  whose entries are objects), \<^verbatim>\<open>getAllProviders\<close> is a function of the catalog that
  returns without an exception, and its result has exactly one
  configuration per catalog entry, in catalog order: the entry of key \<open>k\<close> yields the
  configuration derived from that entry under the id \<^verbatim>\<open>"lmi_" + k\<close>. No entry is
  dropped or merged (the result is as long as the catalog), and the ids produced for
  distinct keys are distinct.
\<close>

theorem getAllProviders_one_per_entry:
  assumes "distinct (map fst entries)"
  shows "\<exists>provs. getAllProviders (manager_of entries) = Inr provs
           \<and> provs = map (\<lambda>(k, e). (''lmi_'' @ k, convertToRustFormat k e)) entries
           \<and> length provs = length entries
           \<and> distinct (map fst provs)"
proof -
  have "distinct (map (\<lambda>k. ''lmi_'' @ k) (map fst entries))"
    by (rule distinct_map_inj[OF inj_lmi assms])
  then have "distinct (map fst
      (map (\<lambda>(k, e). (''lmi_'' @ k, convertToRustFormat k e)) entries))"
    by (simp only: map_fst_derived)
  with getAllProviders_distinct[OF assms] show ?thesis by simp
qed

theorem getAllProviders_one_per_entry_witness:
  "distinct (map fst [(''openai'', openai_entry), (''ollama'', ollama_entry)])
   \<and> (\<exists>provs.
        getAllProviders (manager_of [(''openai'', openai_entry), (''ollama'', ollama_entry)])
          = Inr provs
        \<and> provs = [(''lmi_openai'', convertToRustFormat ''openai'' openai_entry),
                   (''lmi_ollama'', convertToRustFormat ''ollama'' ollama_entry)]
        \<and> length provs = 2
        \<and> distinct (map fst provs))"
  using getAllProviders_one_per_entry
          [of "[(''openai'', openai_entry), (''ollama'', ollama_entry)]"]
  by simp

text \<open>
  Claim C6, as stated, fails: \<^verbatim>\<open>convertToRustFormat\<close> copies \<^verbatim>\<open>wire_api\<close> from the
  catalog entry, so two entries with different \<^verbatim>\<open>wire_api\<close> values yield
  configurations with different values. Here the catalog holds one entry with
  \<^verbatim>\<open>"lmi_bridge"\<close> and one with \<^verbatim>\<open>"chat"\<close>.
\<close>

theorem wire_api_differs_counterexample:
  "map_sum id (map (\<lambda>p. (fst p, wire_api (snd p))))
     (getAllProviders (manager_of [(''openai'', openai_entry), (''ollama'', ollama_entry)]))
   = Inr [(''lmi_openai'', Some ''lmi_bridge''), (''lmi_ollama'', Some ''chat'')]"
  by (simp add: getAllProviders_def manager_of_def convertToRustFormat_def
      openai_entry_def ollama_entry_def)

text \<open>
  Claim C6, amended. For every catalog, the \<^verbatim>\<open>wire_api\<close> of each derived
  configuration is the \<^verbatim>\<open>wire_api\<close> of its catalog entry; the configurations all
  carry the tag \<^verbatim>\<open>"lmi_bridge"\<close> when every catalog entry carries it.
\<close>

theorem wire_api_copied_from_entry:
  assumes "distinct (map fst entries)"
  shows "\<exists>provs. getAllProviders (manager_of entries) = Inr provs
        \<and> map (\<lambda>p. wire_api (snd p)) provs = map (\<lambda>p. lmi_wire_api (snd p)) entries
        \<and> ((\<forall>p \<in> set entries. lmi_wire_api (snd p) = Some ''lmi_bridge'')
             \<longrightarrow> (\<forall>p \<in> set provs. wire_api (snd p) = Some ''lmi_bridge''))"
proof -
  let ?provs = "map (\<lambda>(k, e). (''lmi_'' @ k, convertToRustFormat k e)) entries"
  have a: "getAllProviders (manager_of entries) = Inr ?provs"
    by (rule getAllProviders_distinct[OF assms])
  have b: "map (\<lambda>p. wire_api (snd p)) ?provs = map (\<lambda>p. lmi_wire_api (snd p)) entries"
    by (induction entries) (auto simp: convertToRustFormat_def)
  have c: "(\<forall>p \<in> set entries. lmi_wire_api (snd p) = Some ''lmi_bridge'')
             \<longrightarrow> (\<forall>p \<in> set ?provs. wire_api (snd p) = Some ''lmi_bridge'')"
    by (auto simp: convertToRustFormat_def)
  from a b c show ?thesis by blast
qed

theorem wire_api_copied_from_entry_witness:
  "distinct (map fst [(''openai'', openai_entry)])
   \<and> lmi_wire_api openai_entry = Some ''lmi_bridge''
   \<and> (\<exists>provs. getAllProviders (manager_of [(''openai'', openai_entry)]) = Inr provs
         \<and> map (\<lambda>p. wire_api (snd p)) provs = [Some ''lmi_bridge'']
         \<and> list_all (\<lambda>p. wire_api (snd p) = Some ''lmi_bridge'') provs)"
proof -
  have d: "distinct (map fst [(''openai'', openai_entry)])" by simp
  have w: "lmi_wire_api openai_entry = Some ''lmi_bridge''" by (simp add: openai_entry_def)
  from wire_api_copied_from_entry[OF d] obtain provs where
    g: "getAllProviders (manager_of [(''openai'', openai_entry)]) = Inr provs"
    and m: "map (\<lambda>p. wire_api (snd p)) provs
              = map (\<lambda>p. lmi_wire_api (snd p)) [(''openai'', openai_entry)]"
    and a: "(\<forall>p \<in> set [(''openai'', openai_entry)]. lmi_wire_api (snd p) = Some ''lmi_bridge'')
             \<longrightarrow> (\<forall>p \<in> set provs. wire_api (snd p) = Some ''lmi_bridge'')"
    by blast
  from a w have "list_all (\<lambda>p. wire_api (snd p) = Some ''lmi_bridge'') provs"
    by (simp add: list_all_iff)
  with d w g m show ?thesis by simp
qed

subsection \<open>Resolving an id\<close>

text \<open>
  Claim C2, as stated, fails: \<^verbatim>\<open>getProvider\<close> never tests for the prefix. The id
  \<^verbatim>\<open>openai\<close> does not start with \<^verbatim>\<open>lmi_\<close>, \<^verbatim>\<open>replace\<close> leaves it as it is, and the
  lookup finds the catalog entry: the result is the entry's configuration, not
  \<^verbatim>\<open>null\<close>.
\<close>

theorem getProvider_unprefixed_counterexample:
  "\<not> isLMIProvider ''openai''
   \<and> getProvider (manager_of [(''openai'', openai_entry)]) ''openai''
       = Inr (Some (convertToRustFormat ''openai'' openai_entry))"
  by (simp add: isLMIProvider_def startsWith_def getProvider_def manager_of_def js_get_def)

text \<open>
  Claim C2, amended. \<^verbatim>\<open>getProvider\<close> removes the first occurrence of \<^verbatim>\<open>lmi_\<close> from
  the id and looks the remainder up in the catalog: every id resolves as the
  \<^verbatim>\<open>lmi_\<close>-prefixed form of its remainder does. For an \<^verbatim>\<open>lmi_\<close>-prefixed id whose
  suffix is a catalog key it returns the configuration derived from that entry; for
  an \<^verbatim>\<open>lmi_\<close>-prefixed id whose suffix is neither a catalog key nor the name of a
  member of \<^verbatim>\<open>Object.prototype\<close> it returns \<^verbatim>\<open>null\<close>. An id without the prefix is not
  rejected: one that contains no \<^verbatim>\<open>lmi_\<close> and is itself a catalog key resolves to that
  key's configuration.
\<close>

theorem getProvider_resolves:
  "(map_of entries s = Some e \<longrightarrow>
      getProvider (manager_of entries) (''lmi_'' @ s) = Inr (Some (convertToRustFormat s e)))
   \<and> (map_of entries s = None \<and> s \<notin> set Object_prototype_names \<longrightarrow>
        getProvider (manager_of entries) (''lmi_'' @ s) = Inr None)
   \<and> (\<not> includes_str i ''lmi_'' \<and> map_of entries i = Some e \<longrightarrow>
        getProvider (manager_of entries) i = Inr (Some (convertToRustFormat i e)))
   \<and> getProvider (manager_of entries) i
        = getProvider (manager_of entries) (''lmi_'' @ replace_first ''lmi_'' [] i)"
  using replace_first_none[of "''lmi_''" i "[]"]
  by (auto simp: getProvider_def manager_of_def js_get_def Let_def includes_str_def)

theorem getProvider_resolves_witness:
  "map_of [(''openai'', openai_entry)] ''openai'' = Some openai_entry
   \<and> getProvider (manager_of [(''openai'', openai_entry)]) ''lmi_openai''
       = Inr (Some (convertToRustFormat ''openai'' openai_entry))
   \<and> map_of [(''openai'', openai_entry)] ''mistral'' = None
   \<and> ''mistral'' \<notin> set Object_prototype_names
   \<and> getProvider (manager_of [(''openai'', openai_entry)]) ''lmi_mistral'' = Inr None
   \<and> \<not> includes_str ''openai'' ''lmi_''
   \<and> getProvider (manager_of [(''openai'', openai_entry)]) ''openai''
       = Inr (Some (convertToRustFormat ''openai'' openai_entry))
   \<and> getProvider (manager_of [(''openai'', openai_entry)]) ''xlmi_openai''
       = getProvider (manager_of [(''openai'', openai_entry)]) ''lmi_xopenai''"
  using getProvider_resolves
          [of "[(''openai'', openai_entry)]" "''openai''" openai_entry "''openai''"]
        getProvider_resolves
          [of "[(''openai'', openai_entry)]" "''mistral''" openai_entry "''xlmi_openai''"]
  by (simp add: Object_prototype_names_def includes_str_def sublist_Cons_right)

subsection \<open>Credential hints\<close>

text \<open>
  Claim C8 does not hold of the code for every provider key. The instruction table is
  an object literal, and \<^verbatim>\<open>instructions[providerId]\<close> reaches the members the table
  inherits from \<^verbatim>\<open>Object.prototype\<close>: for the key \<^verbatim>\<open>toString\<close> the left operand of
  \<^verbatim>\<open>||\<close> is the built-in function, which is truthy, and \<^verbatim>\<open>getEnvKeyInstructions\<close>
  returns that function: neither the table's string nor the generic sentence. The key
  reaches it from any catalog through \<^verbatim>\<open>getProvider("lmi_toString")\<close>.
\<close>

theorem getEnvKeyInstructions_inherited_member:
  "getEnvKeyInstructions ''toString'' provider = Member ''toString''
   \<and> map_sum id (map_option env_key_instructions)
        (getProvider (manager_of [(''openai'', openai_entry)]) ''lmi_toString'')
       = Inr (Some (Member ''toString''))"
  by (simp add: getEnvKeyInstructions_def js_get_def instructions_def
      Object_prototype_names_def getProvider_def manager_of_def convertToRustFormat_def
      Let_def)

subsection \<open>A catalog that cannot be loaded\<close>

text \<open>
  Claim C9. When the catalog file cannot be read (\<^verbatim>\<open>readFileSync\<close> throws) or its
  content is not valid JSON (\<^verbatim>\<open>JSON.parse\<close> throws), the constructed provider manager
  holds an empty provider mapping: \<^verbatim>\<open>getAllProviders\<close> returns the empty object,
  \<^verbatim>\<open>listProviderIds\<close> the empty list, \<^verbatim>\<open>generateTOMLConfig\<close> the header line
  \<^verbatim>\<open>[model_providers]\<close> followed by an empty line and nothing else, and none of them,
  nor \<^verbatim>\<open>getProvider\<close> on any id, raises an exception.
\<close>

theorem unloadable_catalog_empty_registry:
  assumes "configData = None \<or> (\<exists>d. configData = Some d \<and> parse d = None)"
  shows "getAllProviders (new_ProviderManager parse configData) = Inr []
       \<and> listProviderIds (new_ProviderManager parse configData) = Inr []
       \<and> generateTOMLConfig (new_ProviderManager parse configData)
           = Inr (''[model_providers]'' @ [nl, nl])
       \<and> (\<exists>r. getProvider (new_ProviderManager parse configData) i = Inr r)"
  using assms
  by (auto simp: new_ProviderManager_def loadLMIProviders_def getAllProviders_def
      listProviderIds_def generateTOMLConfig_def getProvider_def Let_def
      split: js_lookup.splits)

theorem unloadable_catalog_empty_registry_witness:
  "(Some ''{ not json'' = (None :: string option)
      \<or> (\<exists>d. Some ''{ not json'' = Some d \<and> (\<lambda>d. None :: lmiProviders option) d = None))
   \<and> getAllProviders (new_ProviderManager (\<lambda>d. None) (Some ''{ not json'')) = Inr []
   \<and> listProviderIds (new_ProviderManager (\<lambda>d. None) (Some ''{ not json'')) = Inr []
   \<and> generateTOMLConfig (new_ProviderManager (\<lambda>d. None) (Some ''{ not json''))
       = Inr (''[model_providers]'' @ [nl, nl])
   \<and> (\<exists>r. getProvider (new_ProviderManager (\<lambda>d. None) (Some ''{ not json'')) ''lmi_openai''
            = Inr r)"
  using unloadable_catalog_empty_registry
          [of "Some ''{ not json''" "\<lambda>d. None" "''lmi_openai''"]
  by simp

subsection \<open>Merging into the configuration file\<close>

text \<open>
  Claim C7, as stated, fails for a registry derived from an empty catalog (the
  registry of a catalog file that is missing). The rendered text is then the header
  alone, which does not contain the marker \<^verbatim>\<open>[model_providers.lmi_\<close>, so the merged
  document does not contain it either and a second merge appends the text again.
\<close>

theorem addToConfig_empty_catalog_counterexample:
  "snd (addToConfig (new_ProviderManager (\<lambda>d. None) None)
          (snd (addToConfig (new_ProviderManager (\<lambda>d. None) None) (writable_file []))))
   \<noteq> snd (addToConfig (new_ProviderManager (\<lambda>d. None) None) (writable_file []))"
  by (simp add: addToConfig_def new_ProviderManager_def loadLMIProviders_def
      writable_file_def generateTOMLConfig_def getAllProviders_def includes_str_def
      sublist_Cons_right nl_def)

text \<open>
  Claim C7, amended. For every registry derived from a catalog with at least one
  entry, and every readable and writable configuration file: \<^verbatim>\<open>addToConfig\<close> appends
  the rendered text (after an empty line and a comment line) when the document does
  not contain the marker \<^verbatim>\<open>[model_providers.lmi_\<close>, and leaves the file as it is,
  reporting that the providers are already configured, when it does. A second merge
  therefore always reports that the providers are already configured and changes
  nothing: merging twice yields the same document as merging once.
\<close>

theorem addToConfig_idempotent:
  assumes "distinct (map fst entries)" and "entries \<noteq> []"
    and "content file = Some doc" and "read_ok file" and "write_ok file"
  shows "\<exists>toml. generateTOMLConfig (manager_of entries) = Inr toml
     \<and> (\<not> includes_str doc ''[model_providers.lmi_'' \<longrightarrow>
          addToConfig (manager_of entries) file =
            (Added, file\<lparr>content := Some (doc @ [nl, nl]
                @ ''# Large Models Interface Providers'' @ [nl] @ toml)\<rparr>))
     \<and> (includes_str doc ''[model_providers.lmi_'' \<longrightarrow>
          addToConfig (manager_of entries) file = (AlreadyConfigured, file))
     \<and> addToConfig (manager_of entries) (snd (addToConfig (manager_of entries) file))
         = (AlreadyConfigured, snd (addToConfig (manager_of entries) file))"
proof -
  let ?pm = "manager_of entries"
  obtain toml where t: "generateTOMLConfig ?pm = Inr toml"
    and m: "includes_str toml ''[model_providers.lmi_''"
    using generateTOMLConfig_marker[OF assms(1,2)] by blast
  let ?new = "doc @ [nl, nl] @ ''# Large Models Interface Providers'' @ [nl] @ toml"
  have inc: "includes_str ?new ''[model_providers.lmi_''"
    using m by (intro includes_append)
  have add: "\<not> includes_str doc ''[model_providers.lmi_'' \<Longrightarrow>
          addToConfig ?pm file = (Added, file\<lparr>content := Some ?new\<rparr>)"
    using assms(3-5) t by (simp add: addToConfig_def)
  have keep: "includes_str doc ''[model_providers.lmi_'' \<Longrightarrow>
          addToConfig ?pm file = (AlreadyConfigured, file)"
    using assms(3-5) t by (simp add: addToConfig_def)
  have again: "addToConfig ?pm (snd (addToConfig ?pm file))
                 = (AlreadyConfigured, snd (addToConfig ?pm file))"
  proof (cases "includes_str doc ''[model_providers.lmi_''")
    case True
    with keep show ?thesis by simp
  next
    case False
    have "addToConfig ?pm (file\<lparr>content := Some ?new\<rparr>)
            = (AlreadyConfigured, file\<lparr>content := Some ?new\<rparr>)"
      using assms(4,5) t inc by (simp add: addToConfig_def)
    with add[OF False] show ?thesis by simp
  qed
  from t add keep again show ?thesis by blast
qed

theorem addToConfig_idempotent_witness:
  "distinct (map fst [(''openai'', openai_entry)])
   \<and> [(''openai'', openai_entry)] \<noteq> []
   \<and> content (writable_file ''# icodex'') = Some ''# icodex''
   \<and> read_ok (writable_file ''# icodex'') \<and> write_ok (writable_file ''# icodex'')
   \<and> \<not> includes_str ''# icodex'' ''[model_providers.lmi_''
   \<and> (\<exists>toml. generateTOMLConfig (manager_of [(''openai'', openai_entry)]) = Inr toml
         \<and> addToConfig (manager_of [(''openai'', openai_entry)]) (writable_file ''# icodex'')
             = (Added, (writable_file ''# icodex'')\<lparr>content := Some (''# icodex'' @ [nl, nl]
                  @ ''# Large Models Interface Providers'' @ [nl] @ toml)\<rparr>)
         \<and> addToConfig (manager_of [(''openai'', openai_entry)])
              (snd (addToConfig (manager_of [(''openai'', openai_entry)])
                      (writable_file ''# icodex'')))
             = (AlreadyConfigured,
                snd (addToConfig (manager_of [(''openai'', openai_entry)])
                       (writable_file ''# icodex''))))
   \<and> content (writable_file ''[model_providers.lmi_openai]'')
       = Some ''[model_providers.lmi_openai]''
   \<and> read_ok (writable_file ''[model_providers.lmi_openai]'')
   \<and> write_ok (writable_file ''[model_providers.lmi_openai]'')
   \<and> includes_str ''[model_providers.lmi_openai]'' ''[model_providers.lmi_''
   \<and> addToConfig (manager_of [(''openai'', openai_entry)])
        (writable_file ''[model_providers.lmi_openai]'')
       = (AlreadyConfigured, writable_file ''[model_providers.lmi_openai]'')"
proof -
  let ?entries = "[(''openai'', openai_entry)]"
  have d: "distinct (map fst ?entries)" and ne: "?entries \<noteq> []" by simp_all
  have c1: "content (writable_file ''# icodex'') = Some ''# icodex''"
    and r1: "read_ok (writable_file ''# icodex'')"
    and w1: "write_ok (writable_file ''# icodex'')"
    by (simp_all add: writable_file_def)
  have n1: "\<not> includes_str ''# icodex'' ''[model_providers.lmi_''"
    by (simp add: includes_str_def sublist_Cons_right)
  have c2: "content (writable_file ''[model_providers.lmi_openai]'')
              = Some ''[model_providers.lmi_openai]''"
    and r2: "read_ok (writable_file ''[model_providers.lmi_openai]'')"
    and w2: "write_ok (writable_file ''[model_providers.lmi_openai]'')"
    by (simp_all add: writable_file_def)
  have i2: "includes_str ''[model_providers.lmi_openai]'' ''[model_providers.lmi_''"
    by (simp add: includes_str_def sublist_Cons_right)
  from addToConfig_idempotent[OF d ne c1 r1 w1] n1
  have a: "\<exists>toml. generateTOMLConfig (manager_of ?entries) = Inr toml
         \<and> addToConfig (manager_of ?entries) (writable_file ''# icodex'')
             = (Added, (writable_file ''# icodex'')\<lparr>content := Some (''# icodex'' @ [nl, nl]
                  @ ''# Large Models Interface Providers'' @ [nl] @ toml)\<rparr>)
         \<and> addToConfig (manager_of ?entries)
              (snd (addToConfig (manager_of ?entries) (writable_file ''# icodex'')))
             = (AlreadyConfigured,
                snd (addToConfig (manager_of ?entries) (writable_file ''# icodex'')))"
    by blast
  from addToConfig_idempotent[OF d ne c2 r2 w2] i2
  have b: "addToConfig (manager_of ?entries) (writable_file ''[model_providers.lmi_openai]'')
       = (AlreadyConfigured, writable_file ''[model_providers.lmi_openai]'')"
    by blast
  from d ne c1 r1 w1 n1 a c2 r2 w2 i2 b show ?thesis by blast
qed

section \<open>Properties of the model bridge service\<close>

subsection \<open>Auxiliary facts\<close>

lemma hex_digit_not_nl: "hex_digit n \<noteq> nl"
proof -
  have "n mod 16 < 16" by simp
  then have "hex_digit n \<in> set ''0123456789abcdef''"
    unfolding hex_digit_def by (intro nth_mem) simp
  then show ?thesis by (auto simp: nl_def)
qed

lemma show_nat_no_nl: "nl \<notin> set (show_nat n)"
proof (induction n rule: show_nat.induct)
  case (1 n)
  show ?case
  proof (cases "n < 10")
    case True
    then show ?thesis using hex_digit_not_nl[of n] by (subst show_nat.simps) auto
  next
    case False
    then show ?thesis using 1 hex_digit_not_nl[of "n mod 10"]
      by (subst show_nat.simps) auto
  qed
qed

lemma show_int_no_nl: "nl \<notin> set (show_int i)"
  using show_nat_no_nl by (auto simp: show_int_def nl_def)

lemma escape_char_no_nl: "nl \<notin> set (escape_char c)"
  using hex_digit_not_nl[of "of_char c div 16"] hex_digit_not_nl[of "of_char c mod 16"]
  by (auto simp: escape_char_def nl_def)

lemma quote_no_nl: "nl \<notin> set (quote s)"
  using escape_char_no_nl by (auto simp: quote_def dq_def nl_def)

lemma join_no_nl:
  "nl \<notin> set sep \<Longrightarrow> (\<forall>x \<in> set xs. nl \<notin> set x) \<Longrightarrow> nl \<notin> set (join sep xs)"
  by (induction sep xs rule: join.induct) auto

lemma JSON_stringify_no_nl: "nl \<notin> set (JSON_stringify v)"
proof (induction v rule: JSON_stringify.induct)
  case (6 vs)
  have "nl \<notin> set (join '','' (map JSON_stringify vs))"
    using 6 by (intro join_no_nl) (auto simp: nl_def)
  then show ?case by (simp add: nl_def)
next
  case (7 kvs)
  have "nl \<notin> set (join '','' (map (\<lambda>kv. quote (fst kv) @ '':'' @ JSON_stringify (snd kv))
           (filter (\<lambda>kv. snd kv \<noteq> JUndefined) kvs)))"
  proof (intro join_no_nl)
    show "nl \<notin> set '',''" by (simp add: nl_def)
    show "\<forall>x\<in>set (map (\<lambda>kv. quote (fst kv) @ '':'' @ JSON_stringify (snd kv))
           (filter (\<lambda>kv. snd kv \<noteq> JUndefined) kvs)). nl \<notin> set x"
      using 7 quote_no_nl by (auto simp: nl_def)
  qed
  then show ?case by (simp add: nl_def)
qed (simp_all add: nl_def show_int_no_nl[unfolded nl_def] quote_no_nl[unfolded nl_def])

lemma resume_suspend:
  "fresh_ids s \<Longrightarrow> resume (next_id s) (suspend w s) = s\<lparr>next_id := Suc (next_id s)\<rparr>"
proof -
  assume "fresh_ids s"
  then have "filter (\<lambda>p. fst p \<noteq> next_id s) (pending s) = pending s"
    by (intro filter_True) (auto simp: fresh_ids_def)
  then show ?thesis by (simp add: resume_def suspend_def)
qed

lemma map_of_suspend:
  "fresh_ids s \<Longrightarrow> map_of (pending (suspend w s)) (next_id s) = Some w"
proof -
  assume "fresh_ids s"
  then have "map_of (pending s) (next_id s) = None"
    by (force simp: fresh_ids_def map_of_eq_None_iff)
  then show ?thesis by (simp add: suspend_def map_add_def)
qed

lemma fresh_ids_step: "fresh_ids s \<Longrightarrow> fresh_ids (step rt s ev)"
  by (cases ev)
    (auto simp: step_def on_line_def fresh_ids_def sendError_def sendResponse_def
      console_log_def suspend_def resume_def
      split: sum.splits dispatch.splits option.splits suspended.splits)

lemma fresh_ids_run: "fresh_ids s \<Longrightarrow> fresh_ids (run rt s evs)"
  by (induction evs arbitrary: s) (simp_all add: run_def fresh_ids_step)

lemma count_console_log:
  "count_list (stdout (console_log (JSON_stringify v) s)) nl = Suc (count_list (stdout s) nl)"
  using JSON_stringify_no_nl[of v] by (simp add: console_log_def count_list_0_iff)

lemma console_log_other:
  "pending (console_log t s) = pending s" "next_id (console_log t s) = next_id s"
  "running (console_log t s) = running s"
  by (simp_all add: console_log_def)

lemma well_formed_suspend: "well_formed s \<Longrightarrow> well_formed (suspend w s)"
  by (fastforce simp: well_formed_def suspend_def fresh_ids_def)

lemma well_formed_resume: "well_formed s \<Longrightarrow> well_formed (resume i s)"
  by (auto simp: well_formed_def resume_def fresh_ids_def distinct_map_filter)

lemma well_formed_console_log: "well_formed s \<Longrightarrow> well_formed (console_log t s)"
  by (simp add: well_formed_def console_log_def fresh_ids_def)

lemma length_filter_one:
  "distinct (map fst ps) \<Longrightarrow> map_of ps i = Some w \<Longrightarrow>
   Suc (length (filter (\<lambda>p. fst p \<noteq> i) ps)) = length ps"
proof (induction ps)
  case Nil
  then show ?case by simp
next
  case (Cons p ps)
  show ?case
  proof (cases "fst p = i")
    case True
    have "\<forall>x \<in> set ps. fst x \<noteq> i"
      using Cons.prems(1) True by (auto simp: image_iff)
    then have "filter (\<lambda>p. fst p \<noteq> i) ps = ps"
      by (intro filter_True) simp
    with True show ?thesis by simp
  next
    case False
    then show ?thesis using Cons by (cases p) auto
  qed
qed

lemma step_accounting:
  assumes "well_formed s" and "ev \<noteq> Signal"
  shows "well_formed (step rt s ev)
       \<and> responses_written (step rt s ev) + length (pending (step rt s ev))
         = responses_written s + length (pending s) + (if is_line ev then 1 else 0)"
proof (cases ev)
  case (Line l)
  show ?thesis
  proof (cases "JSON_parse rt l")
    case (Inl e)
    then show ?thesis using assms(1) Line
      by (simp add: step_def on_line_def sendError_def well_formed_console_log
          responses_written_def count_console_log console_log_other)
        (simp add: well_formed_def)
  next
    case (Inr req)
    then show ?thesis using assms(1) Line well_formed_suspend[OF assms(1)]
      by (cases "handleRequest rt req")
        (simp_all add: step_def on_line_def responses_written_def well_formed_def,
         simp_all add: suspend_def)
  qed
next
  case (Settle i r)
  show ?thesis
  proof (cases "map_of (pending s) i")
    case None
    then show ?thesis using assms(1) Settle by (simp add: step_def well_formed_def)
  next
    case (Some w)
    show ?thesis
    proof (cases w)
      case (AwaitsCall c)
      have "Suc (length (pending (resume i s))) = length (pending s)"
        using length_filter_one[of "pending s" i w] assms(1) Some
        by (simp add: resume_def well_formed_def)
      then show ?thesis using assms(1) Settle Some AwaitsCall
        by (simp add: step_def sendResponse_def well_formed_console_log well_formed_resume
            responses_written_def count_console_log console_log_other)
          (simp add: well_formed_def resume_def)
    next
      case (AwaitsRejection e)
      then show ?thesis using assms(1) Settle Some by (simp add: step_def well_formed_def)
    qed
  qed
next
  case (Deliver i)
  show ?thesis
  proof (cases "map_of (pending s) i")
    case None
    then show ?thesis using assms(1) Deliver by (simp add: step_def well_formed_def)
  next
    case (Some w)
    show ?thesis
    proof (cases w)
      case (AwaitsRejection e)
      have "Suc (length (pending (resume i s))) = length (pending s)"
        using length_filter_one[of "pending s" i w] assms(1) Some
        by (simp add: resume_def well_formed_def)
      then show ?thesis using assms(1) Deliver Some AwaitsRejection
        by (simp add: step_def sendError_def well_formed_console_log well_formed_resume
            responses_written_def count_console_log console_log_other)
          (simp add: well_formed_def resume_def)
    next
      case (AwaitsCall c)
      then show ?thesis using assms(1) Deliver Some by (simp add: step_def well_formed_def)
    qed
  qed
next
  case Signal
  with assms(2) show ?thesis by simp
qed

lemma run_accounting:
  "well_formed s \<Longrightarrow> Signal \<notin> set evs \<Longrightarrow>
   well_formed (run rt s evs)
   \<and> responses_written (run rt s evs) + length (pending (run rt s evs))
      = responses_written s + length (pending s) + length (filter is_line evs)"
proof (induction evs arbitrary: s)
  case Nil
  then show ?case by (simp add: run_def)
next
  case (Cons ev evs)
  have ne: "ev \<noteq> Signal" and rest: "Signal \<notin> set evs" using Cons.prems(2) by auto
  from step_accounting[OF Cons.prems(1) ne, of rt]
  have wf: "well_formed (step rt s ev)"
    and acc: "responses_written (step rt s ev) + length (pending (step rt s ev))
         = responses_written s + length (pending s) + (if is_line ev then 1 else 0)"
    by auto
  from Cons.IH[OF wf rest] acc show ?case by (simp add: run_def)
qed

lemma well_formed_init: "well_formed init_bridge"
  by (simp add: well_formed_def init_bridge_def fresh_ids_def)

lemma run_Cons: "run rt s (ev # evs) = run rt (step rt s ev) evs"
  by (simp add: run_def)

lemma serial_in_order:
  "running s \<Longrightarrow> fresh_ids s \<Longrightarrow>
   stdout (run rt s (serial_events rt (next_id s) reqs))
     = stdout s @ concat (map (\<lambda>(line, settled).
                                JSON_stringify (response_to rt line settled) @ [nl]) reqs)
   \<and> pending (run rt s (serial_events rt (next_id s) reqs)) = pending s"
proof (induction reqs arbitrary: s)
  case Nil
  then show ?case by (simp add: run_def)
next
  case (Cons req reqs)
  obtain line settled where req: "req = (line, settled)" by (cases req)
  show ?case
  proof (cases "JSON_parse rt line")
    case (Inl e)
    let ?s' = "sendError e s"
    have st: "step rt s (Line line) = ?s'"
      using Cons.prems(1) Inl by (simp add: step_def on_line_def)
    have r: "running ?s'" and f: "fresh_ids ?s'" and n: "next_id ?s' = next_id s"
      and p: "pending ?s' = pending s"
      and o: "stdout ?s' = stdout s @ JSON_stringify (response_to rt line settled) @ [nl]"
      using Cons.prems Inl
      by (simp_all add: sendError_def console_log_def fresh_ids_def response_to_def)
    from Cons.IH[OF r f] show ?thesis
      by (simp add: req Inl run_Cons st n p o)
  next
    case (Inr request)
    show ?thesis
    proof (cases "handleRequest rt request")
      case (Calls c)
      let ?s1 = "suspend (AwaitsCall c) s"
      let ?s' = "sendResponse (handler_result c settled) (s\<lparr>next_id := Suc (next_id s)\<rparr>)"
      have st1: "step rt s (Line line) = ?s1"
        using Cons.prems(1) Inr Calls by (simp add: step_def on_line_def)
      have "running ?s1" using Cons.prems(1) by (simp add: suspend_def)
      then have st2: "step rt ?s1 (Settle (next_id s) settled) = ?s'"
        using map_of_suspend[OF Cons.prems(2), of "AwaitsCall c"]
          resume_suspend[OF Cons.prems(2), of "AwaitsCall c"]
        by (simp add: step_def)
      have r: "running ?s'" and f: "fresh_ids ?s'" and n: "next_id ?s' = Suc (next_id s)"
        and p: "pending ?s' = pending s"
        and o: "stdout ?s' = stdout s @ JSON_stringify (response_to rt line settled) @ [nl]"
        using Cons.prems Inr Calls
        by (auto simp: sendResponse_def console_log_def fresh_ids_def response_to_def)
      from Cons.IH[OF r f] show ?thesis
        by (simp add: req Inr Calls run_Cons st1 st2 n p o)
    next
      case (Throws e)
      let ?s1 = "suspend (AwaitsRejection e) s"
      let ?s' = "sendError e (s\<lparr>next_id := Suc (next_id s)\<rparr>)"
      have st1: "step rt s (Line line) = ?s1"
        using Cons.prems(1) Inr Throws by (simp add: step_def on_line_def)
      have "running ?s1" using Cons.prems(1) by (simp add: suspend_def)
      then have st2: "step rt ?s1 (Deliver (next_id s)) = ?s'"
        using map_of_suspend[OF Cons.prems(2), of "AwaitsRejection e"]
          resume_suspend[OF Cons.prems(2), of "AwaitsRejection e"]
        by (simp add: step_def)
      have r: "running ?s'" and f: "fresh_ids ?s'" and n: "next_id ?s' = Suc (next_id s)"
        and p: "pending ?s' = pending s"
        and o: "stdout ?s' = stdout s @ JSON_stringify (response_to rt line settled) @ [nl]"
        using Cons.prems Inr Throws
        by (auto simp: sendError_def console_log_def fresh_ids_def response_to_def)
      from Cons.IH[OF r f] show ?thesis
        by (simp add: req Inr Throws run_Cons st1 st2 n p o)
    qed
  qed
qed

lemma stringify_providers_example:
  "JSON_stringify (JObj [(''success'', JBool True),
      (''data'', JArr [JStr ''openai'', JStr ''anthropic''])])
   = ''{\"success\":true,\"data\":[\"openai\",\"anthropic\"]}''"
  by (simp add: quote_def escape_char_def dq_def)

lemma stringify_not_found_example:
  "JSON_stringify (JObj [(''success'', JBool False),
      (''error'', JStr (message not_found_error))])
   = ''{\"success\":false,\"error\":\"provider not found\"}''"
  by (simp add: quote_def escape_char_def dq_def not_found_error_def)

text \<open>The line feed in the stack trace of an error is written as an escape.\<close>

lemma stringify_syntax_error_example:
  "JSON_stringify (errorResponse syntax_error)
   = ''{\"success\":false,\"error\":\"Unexpected token\",\"stack\":\"SyntaxError: Unexpected token''
     @ [CHR 0x5C] @ ''n    at JSON.parse (<anonymous>)\"}''"
  by (simp add: errorResponse_def syntax_error_def quote_def escape_char_def dq_def nl_def)

subsection \<open>One line per response\<close>

text \<open>
  Claim C10. Every response the service sends, through \<^verbatim>\<open>sendResponse\<close> (success and
  provider failure) or \<^verbatim>\<open>sendError\<close> (server-level failure), is written as the text
  \<^verbatim>\<open>JSON.stringify\<close> gives for the response object followed by exactly one line
  feed, and that text contains no line feed whatever the payload holds (a line feed
  inside a string, such as the stack trace, is written as the two characters
  \<^verbatim>\<open>\n\<close>). Every event either writes nothing or writes exactly one such line.
\<close>

theorem every_response_one_line:
  "stdout (sendResponse response s) = stdout s @ JSON_stringify response @ [nl]
   \<and> nl \<notin> set (JSON_stringify response)
   \<and> stdout (sendError error s) = stdout s @ JSON_stringify (errorResponse error) @ [nl]
   \<and> nl \<notin> set (JSON_stringify (errorResponse error))
   \<and> (stdout (step rt s ev) = stdout s
        \<or> (\<exists>v. stdout (step rt s ev) = stdout s @ JSON_stringify v @ [nl]))"
proof -
  have a: "stdout (sendResponse v t) = stdout t @ JSON_stringify v @ [nl]" for v t
    by (simp add: sendResponse_def console_log_def)
  have b: "stdout (sendError e t) = stdout t @ JSON_stringify (errorResponse e) @ [nl]" for e t
    by (simp add: sendError_def console_log_def)
  have c: "stdout (step rt s ev) = stdout s
        \<or> (\<exists>v. stdout (step rt s ev) = stdout s @ JSON_stringify v @ [nl])"
  proof (cases "running s")
    case False
    then show ?thesis by (simp add: step_def)
  next
    case True
    show ?thesis
    proof (cases ev)
      case (Line l)
      then show ?thesis using True
        by (auto simp: step_def on_line_def b suspend_def split: sum.splits dispatch.splits)
    next
      case (Settle i r)
      then show ?thesis using True
        by (auto simp: step_def a resume_def split: option.splits suspended.splits)
    next
      case (Deliver i)
      then show ?thesis using True
        by (auto simp: step_def b resume_def split: option.splits suspended.splits)
    next
      case Signal
      then show ?thesis using True by (simp add: step_def)
    qed
  qed
  from a b c JSON_stringify_no_nl show ?thesis by blast
qed

subsection \<open>Malformed lines and unknown request types\<close>

lemma stringify_unknown_type_example:
  "JSON_stringify (errorResponse
      \<lparr>message = ''Unknown request type: ping'',
       stack = stack_trace example_runtime ''Error'' ''Unknown request type: ping''\<rparr>)
   = ''{\"success\":false,\"error\":\"Unknown request type: ping\",\"stack\":\"Error: Unknown request type: ping''
     @ [CHR 0x5C] @ ''n    at handleRequest\"}''"
  by (simp add: errorResponse_def example_runtime_def quote_def escape_char_def dq_def nl_def)

lemma stringify_type_error_example:
  "JSON_stringify (errorResponse
      \<lparr>message = ''Cannot convert object to primitive value'',
       stack = stack_trace example_runtime ''TypeError''
         ''Cannot convert object to primitive value''\<rparr>)
   = ''{\"success\":false,\"error\":\"Cannot convert object to primitive value\",\"stack\":\"TypeError: Cannot convert object to primitive value''
     @ [CHR 0x5C] @ ''n    at handleRequest\"}''"
  by (simp add: errorResponse_def example_runtime_def quote_def escape_char_def dq_def nl_def)

text \<open>
  Claim C3. In a running service, a line that \<^verbatim>\<open>JSON.parse\<close> rejects makes the
  listener send, at once, exactly one response
  \<^verbatim>\<open>{success:false, error:message, stack:stack}\<close> and changes nothing else. A line
  that parses to a value other than \<^verbatim>\<open>null\<close> whose \<^verbatim>\<open>type\<close> is none of
  \<^verbatim>\<open>chat_completion\<close>, \<^verbatim>\<open>list_models\<close>, \<^verbatim>\<open>list_providers\<close> makes \<^verbatim>\<open>handleRequest\<close>
  throw: the error \<^verbatim>\<open>Unknown request type: <type>\<close> when the template literal can
  convert the type to a string, and the TypeError of that conversion when it cannot.
  The listener awaits that rejection, and when it is delivered sends exactly one
  response of the same shape, with the error's message as the error string. In both
  cases the service keeps running, no listener stays suspended for the line, and the
  next line is handed to the listener as any line is.
\<close>

theorem bad_line_one_failure_response:
  assumes "running s" and "fresh_ids s"
  shows "(JSON_parse rt line = Inl error \<longrightarrow>
           step rt s (Line line) =
             s\<lparr>stdout := stdout s @ JSON_stringify (JObj [(''success'', JBool False),
                  (''error'', JStr (message error)), (''stack'', JStr (stack error))]) @ [nl]\<rparr>
           \<and> step rt (step rt s (Line line)) (Line next_line)
               = on_line rt next_line (step rt s (Line line)))
       \<and> (JSON_parse rt line = Inr request \<and> request \<noteq> JNull
            \<and> get_prop request ''type'' \<noteq> JStr ''chat_completion''
            \<and> get_prop request ''type'' \<noteq> JStr ''list_models''
            \<and> get_prop request ''type'' \<noteq> JStr ''list_providers'' \<longrightarrow>
           (\<exists>error.
              message error =
                (case to_string rt (get_prop request ''type'') of
                   Some text \<Rightarrow> ''Unknown request type: '' @ text
                 | None \<Rightarrow> ''Cannot convert object to primitive value'')
              \<and> step rt s (Line line) = suspend (AwaitsRejection error) s
              \<and> step rt (step rt s (Line line)) (Deliver (next_id s)) =
                  s\<lparr>stdout := stdout s @ JSON_stringify (JObj [(''success'', JBool False),
                       (''error'', JStr (message error)), (''stack'', JStr (stack error))]) @ [nl],
                    next_id := Suc (next_id s)\<rparr>
              \<and> step rt (step rt (step rt s (Line line)) (Deliver (next_id s))) (Line next_line)
                  = on_line rt next_line (step rt (step rt s (Line line)) (Deliver (next_id s)))))"
proof (intro conjI impI)
  assume p: "JSON_parse rt line = Inl error"
  then show st: "step rt s (Line line) =
             s\<lparr>stdout := stdout s @ JSON_stringify (JObj [(''success'', JBool False),
                  (''error'', JStr (message error)), (''stack'', JStr (stack error))]) @ [nl]\<rparr>"
    using assms(1)
    by (simp add: step_def on_line_def sendError_def errorResponse_def console_log_def)
  show "step rt (step rt s (Line line)) (Line next_line)
          = on_line rt next_line (step rt s (Line line))"
    unfolding st using assms(1) by (simp add: step_def)
next
  assume a: "JSON_parse rt line = Inr request \<and> request \<noteq> JNull
            \<and> get_prop request ''type'' \<noteq> JStr ''chat_completion''
            \<and> get_prop request ''type'' \<noteq> JStr ''list_models''
            \<and> get_prop request ''type'' \<noteq> JStr ''list_providers''"
  let ?m = "case to_string rt (get_prop request ''type'') of
              Some text \<Rightarrow> ''Unknown request type: '' @ text
            | None \<Rightarrow> ''Cannot convert object to primitive value''"
  obtain e where h: "handleRequest rt request = Throws e" and m: "message e = ?m"
    using a by (cases "to_string rt (get_prop request ''type'')")
      (simp_all add: handleRequest_def Let_def)
  let ?out = "s\<lparr>stdout := stdout s @ JSON_stringify (JObj [(''success'', JBool False),
                       (''error'', JStr (message e)), (''stack'', JStr (stack e))]) @ [nl],
                    next_id := Suc (next_id s)\<rparr>"
  have s1: "step rt s (Line line) = suspend (AwaitsRejection e) s"
    using a h assms(1) by (simp add: step_def on_line_def)
  have r1: "running (suspend (AwaitsRejection e) s)" using assms(1) by (simp add: suspend_def)
  have s2: "step rt (suspend (AwaitsRejection e) s) (Deliver (next_id s))
        = sendError e (resume (next_id s) (suspend (AwaitsRejection e) s))"
    using r1 map_of_suspend[OF assms(2), of "AwaitsRejection e"] by (simp add: step_def)
  have s3: "step rt (step rt s (Line line)) (Deliver (next_id s)) = ?out"
    unfolding s1 s2 resume_suspend[OF assms(2)]
    by (simp add: sendError_def errorResponse_def console_log_def)
  have s4: "step rt (step rt (step rt s (Line line)) (Deliver (next_id s))) (Line next_line)
              = on_line rt next_line (step rt (step rt s (Line line)) (Deliver (next_id s)))"
    unfolding s3 using assms(1) by (simp add: step_def)
  from m s1 s3 s4 show "\<exists>error.
              message error = ?m
              \<and> step rt s (Line line) = suspend (AwaitsRejection error) s
              \<and> step rt (step rt s (Line line)) (Deliver (next_id s)) =
                  s\<lparr>stdout := stdout s @ JSON_stringify (JObj [(''success'', JBool False),
                       (''error'', JStr (message error)), (''stack'', JStr (stack error))]) @ [nl],
                    next_id := Suc (next_id s)\<rparr>
              \<and> step rt (step rt (step rt s (Line line)) (Deliver (next_id s))) (Line next_line)
                  = on_line rt next_line (step rt (step rt s (Line line)) (Deliver (next_id s)))"
    by (intro exI[of _ e]) simp
qed

theorem bad_line_one_failure_response_witness:
  "running init_bridge \<and> fresh_ids init_bridge
   \<and> JSON_parse example_runtime ''{ not json'' = Inl syntax_error
   \<and> step example_runtime init_bridge (Line ''{ not json'') =
       init_bridge\<lparr>stdout := stdout init_bridge @ JSON_stringify (JObj [(''success'', JBool False),
            (''error'', JStr (message syntax_error)), (''stack'', JStr (stack syntax_error))])
          @ [nl]\<rparr>
   \<and> stdout (step example_runtime init_bridge (Line ''{ not json''))
       = ''{\"success\":false,\"error\":\"Unexpected token\",\"stack\":\"SyntaxError: Unexpected token''
         @ [CHR 0x5C] @ ''n    at JSON.parse (<anonymous>)\"}'' @ [nl]
   \<and> step example_runtime (step example_runtime init_bridge (Line ''{ not json''))
         (Line list_line)
       = on_line example_runtime list_line
           (step example_runtime init_bridge (Line ''{ not json''))
   \<and> ping_line = ''{\"type\":\"ping\"}''
   \<and> JSON_parse example_runtime ping_line = Inr ping_request \<and> ping_request \<noteq> JNull
   \<and> get_prop ping_request ''type'' \<noteq> JStr ''chat_completion''
   \<and> get_prop ping_request ''type'' \<noteq> JStr ''list_models''
   \<and> get_prop ping_request ''type'' \<noteq> JStr ''list_providers''
   \<and> (\<exists>error. message error = ''Unknown request type: ping''
         \<and> step example_runtime init_bridge (Line ping_line)
             = suspend (AwaitsRejection error) init_bridge
         \<and> step example_runtime (step example_runtime init_bridge (Line ping_line)) (Deliver 0) =
             init_bridge\<lparr>stdout := stdout init_bridge
                  @ JSON_stringify (JObj [(''success'', JBool False),
                      (''error'', JStr (message error)), (''stack'', JStr (stack error))]) @ [nl],
               next_id := Suc 0\<rparr>
         \<and> step example_runtime
              (step example_runtime (step example_runtime init_bridge (Line ping_line))
                 (Deliver 0)) (Line list_line)
             = on_line example_runtime list_line
                 (step example_runtime (step example_runtime init_bridge (Line ping_line))
                    (Deliver 0)))
   \<and> stdout (step example_runtime (step example_runtime init_bridge (Line ping_line))
        (Deliver 0))
       = ''{\"success\":false,\"error\":\"Unknown request type: ping\",\"stack\":\"Error: Unknown request type: ping''
         @ [CHR 0x5C] @ ''n    at handleRequest\"}'' @ [nl]
   \<and> object_type_line = ''{\"type\":{\"toString\":\"x\"}}''
   \<and> JSON_parse example_runtime object_type_line = Inr object_type_request
   \<and> object_type_request \<noteq> JNull
   \<and> get_prop object_type_request ''type'' \<noteq> JStr ''chat_completion''
   \<and> get_prop object_type_request ''type'' \<noteq> JStr ''list_models''
   \<and> get_prop object_type_request ''type'' \<noteq> JStr ''list_providers''
   \<and> (\<exists>error. message error = ''Cannot convert object to primitive value''
         \<and> step example_runtime init_bridge (Line object_type_line)
             = suspend (AwaitsRejection error) init_bridge
         \<and> step example_runtime (step example_runtime init_bridge (Line object_type_line))
              (Deliver 0) =
             init_bridge\<lparr>stdout := stdout init_bridge
                  @ JSON_stringify (JObj [(''success'', JBool False),
                      (''error'', JStr (message error)), (''stack'', JStr (stack error))]) @ [nl],
               next_id := Suc 0\<rparr>
         \<and> step example_runtime
              (step example_runtime (step example_runtime init_bridge (Line object_type_line))
                 (Deliver 0)) (Line list_line)
             = on_line example_runtime list_line
                 (step example_runtime
                    (step example_runtime init_bridge (Line object_type_line)) (Deliver 0)))
   \<and> stdout (step example_runtime (step example_runtime init_bridge (Line object_type_line))
        (Deliver 0))
       = ''{\"success\":false,\"error\":\"Cannot convert object to primitive value\",\"stack\":\"TypeError: Cannot convert object to primitive value''
         @ [CHR 0x5C] @ ''n    at handleRequest\"}'' @ [nl]"
proof -
  let ?rt = example_runtime
  have r: "running init_bridge" and f: "fresh_ids init_bridge" and n: "next_id init_bridge = 0"
    and o: "stdout init_bridge = []"
    by (simp_all add: init_bridge_def fresh_ids_def)
  have l2: "ping_line = ''{\"type\":\"ping\"}''"
    and l3: "object_type_line = ''{\"type\":{\"toString\":\"x\"}}''"
    by (simp_all add: ping_line_def object_type_line_def)
  have p1: "JSON_parse ?rt ''{ not json'' = Inl syntax_error"
    and p2: "JSON_parse ?rt ping_line = Inr ping_request"
    and p3: "JSON_parse ?rt object_type_line = Inr object_type_request"
    by (simp_all add: example_runtime_def chat_line_def list_line_def models_line_def
        ping_line_def object_type_line_def)
  have q2: "ping_request \<noteq> JNull"
    "get_prop ping_request ''type'' \<noteq> JStr ''chat_completion''"
    "get_prop ping_request ''type'' \<noteq> JStr ''list_models''"
    "get_prop ping_request ''type'' \<noteq> JStr ''list_providers''"
    and t2: "to_string ?rt (get_prop ping_request ''type'') = Some ''ping''"
    by (simp_all add: ping_request_def get_prop_def)
  have q3: "object_type_request \<noteq> JNull"
    "get_prop object_type_request ''type'' \<noteq> JStr ''chat_completion''"
    "get_prop object_type_request ''type'' \<noteq> JStr ''list_models''"
    "get_prop object_type_request ''type'' \<noteq> JStr ''list_providers''"
    and t3: "to_string ?rt (get_prop object_type_request ''type'') = None"
    by (simp_all add: object_type_request_def get_prop_def)
  from bad_line_one_failure_response
         [OF r f, of ?rt "''{ not json''" syntax_error list_line ping_request] p1
  have a1: "step ?rt init_bridge (Line ''{ not json'') =
       init_bridge\<lparr>stdout := stdout init_bridge @ JSON_stringify (JObj [(''success'', JBool False),
            (''error'', JStr (message syntax_error)), (''stack'', JStr (stack syntax_error))])
          @ [nl]\<rparr>"
    and a2: "step ?rt (step ?rt init_bridge (Line ''{ not json'')) (Line list_line)
       = on_line ?rt list_line (step ?rt init_bridge (Line ''{ not json''))"
    by blast+
  have a3: "stdout (step ?rt init_bridge (Line ''{ not json''))
       = ''{\"success\":false,\"error\":\"Unexpected token\",\"stack\":\"SyntaxError: Unexpected token''
         @ [CHR 0x5C] @ ''n    at JSON.parse (<anonymous>)\"}'' @ [nl]"
    unfolding a1 using stringify_syntax_error_example by (simp add: errorResponse_def o)
  have e2: "(case Some ''ping'' of Some text \<Rightarrow> ''Unknown request type: '' @ text
             | None \<Rightarrow> ''Cannot convert object to primitive value'')
            = ''Unknown request type: ping''"
    and e3: "(case None of Some text \<Rightarrow> ''Unknown request type: '' @ text
             | None \<Rightarrow> ''Cannot convert object to primitive value'')
            = ''Cannot convert object to primitive value''"
    by simp_all
  from bad_line_one_failure_response
         [OF r f, of ?rt ping_line syntax_error list_line ping_request] p2 q2
  have b: "\<exists>error. message error =
            (case to_string ?rt (get_prop ping_request ''type'') of
               Some text \<Rightarrow> ''Unknown request type: '' @ text
             | None \<Rightarrow> ''Cannot convert object to primitive value'')
         \<and> step ?rt init_bridge (Line ping_line) = suspend (AwaitsRejection error) init_bridge
         \<and> step ?rt (step ?rt init_bridge (Line ping_line)) (Deliver (next_id init_bridge)) =
             init_bridge\<lparr>stdout := stdout init_bridge
                  @ JSON_stringify (JObj [(''success'', JBool False),
                      (''error'', JStr (message error)), (''stack'', JStr (stack error))]) @ [nl],
               next_id := Suc (next_id init_bridge)\<rparr>
         \<and> step ?rt (step ?rt (step ?rt init_bridge (Line ping_line))
                (Deliver (next_id init_bridge))) (Line list_line)
             = on_line ?rt list_line (step ?rt (step ?rt init_bridge (Line ping_line))
                 (Deliver (next_id init_bridge)))"
    by blast
  from bad_line_one_failure_response
         [OF r f, of ?rt object_type_line syntax_error list_line object_type_request] p3 q3
  have c: "\<exists>error. message error =
            (case to_string ?rt (get_prop object_type_request ''type'') of
               Some text \<Rightarrow> ''Unknown request type: '' @ text
             | None \<Rightarrow> ''Cannot convert object to primitive value'')
         \<and> step ?rt init_bridge (Line object_type_line)
             = suspend (AwaitsRejection error) init_bridge
         \<and> step ?rt (step ?rt init_bridge (Line object_type_line))
              (Deliver (next_id init_bridge)) =
             init_bridge\<lparr>stdout := stdout init_bridge
                  @ JSON_stringify (JObj [(''success'', JBool False),
                      (''error'', JStr (message error)), (''stack'', JStr (stack error))]) @ [nl],
               next_id := Suc (next_id init_bridge)\<rparr>
         \<and> step ?rt (step ?rt (step ?rt init_bridge (Line object_type_line))
                (Deliver (next_id init_bridge))) (Line list_line)
             = on_line ?rt list_line (step ?rt (step ?rt init_bridge (Line object_type_line))
                 (Deliver (next_id init_bridge)))"
    by blast
  have h2: "handleRequest ?rt ping_request =
      Throws \<lparr>message = ''Unknown request type: ping'',
              stack = stack_trace ?rt ''Error'' ''Unknown request type: ping''\<rparr>"
    using q2 t2 by (simp add: handleRequest_def Let_def)
  have h3: "handleRequest ?rt object_type_request =
      Throws \<lparr>message = ''Cannot convert object to primitive value'',
              stack = stack_trace ?rt ''TypeError''
                ''Cannot convert object to primitive value''\<rparr>"
    using q3 t3 by (simp add: handleRequest_def Let_def)
  have b': "stdout (step ?rt (step ?rt init_bridge (Line ping_line)) (Deliver 0))
       = ''{\"success\":false,\"error\":\"Unknown request type: ping\",\"stack\":\"Error: Unknown request type: ping''
         @ [CHR 0x5C] @ ''n    at handleRequest\"}'' @ [nl]"
    using stringify_unknown_type_example
    by (simp add: step_def on_line_def p2 h2 init_bridge_def suspend_def resume_def
        sendError_def console_log_def)
  have c': "stdout (step ?rt (step ?rt init_bridge (Line object_type_line)) (Deliver 0))
       = ''{\"success\":false,\"error\":\"Cannot convert object to primitive value\",\"stack\":\"TypeError: Cannot convert object to primitive value''
         @ [CHR 0x5C] @ ''n    at handleRequest\"}'' @ [nl]"
    using stringify_type_error_example
    by (simp add: step_def on_line_def p3 h3 init_bridge_def suspend_def resume_def
        sendError_def console_log_def)
  from r f p1 a1 a3 a2 l2 p2 q2 b[unfolded t2 e2 n] b' l3 p3 q3 c[unfolded t3 e3 n] c'
  show ?thesis by blast
qed

subsection \<open>Provider results and provider errors\<close>

text \<open>
  Claim C4. In a running service, a request line whose \<^verbatim>\<open>type\<close> is
  \<^verbatim>\<open>chat_completion\<close>, \<^verbatim>\<open>list_models\<close> or \<^verbatim>\<open>list_providers\<close> makes the listener call
  the library (with the provider, model, messages and options of the request, with the
  provider, or with nothing) and wait. Whenever the awaited call of a suspended
  listener settles: if it resolved with \<open>r\<close> the response written is
  \<^verbatim>\<open>{success:true, data:r}\<close>; if it rejected with an error of message \<open>m\<close> the
  response written is \<^verbatim>\<open>{success:false, error:m}\<close>, the service is still running,
  and the next line is handed to the listener as any line is.
\<close>

theorem provider_outcome_wrapped:
  assumes "running s" and "JSON_parse rt line = Inr request"
    and "running s'" and "map_of (pending s') i = Some (AwaitsCall c)"
  shows "(get_prop request ''type'' = JStr ''chat_completion'' \<longrightarrow>
            step rt s (Line line) =
              suspend (AwaitsCall (ChatCompletion (get_prop request ''provider'')
                  (get_prop request ''model'') (get_prop request ''messages'')
                  (if get_prop request ''options'' = JUndefined then JObj []
                   else get_prop request ''options''))) s)
     \<and> (get_prop request ''type'' = JStr ''list_models'' \<longrightarrow>
            step rt s (Line line)
              = suspend (AwaitsCall (ListModels (get_prop request ''provider''))) s)
     \<and> (get_prop request ''type'' = JStr ''list_providers'' \<longrightarrow>
            step rt s (Line line) = suspend (AwaitsCall ListProviders) s)
     \<and> step rt s' (Settle i (Resolved r))
         = (resume i s')\<lparr>stdout := stdout s'
              @ JSON_stringify (JObj [(''success'', JBool True), (''data'', r)]) @ [nl]\<rparr>
     \<and> step rt s' (Settle i (Rejected error))
         = (resume i s')\<lparr>stdout := stdout s'
              @ JSON_stringify (JObj [(''success'', JBool False),
                                      (''error'', JStr (message error))]) @ [nl]\<rparr>
     \<and> running (step rt s' (Settle i (Rejected error)))
     \<and> step rt (step rt s' (Settle i (Rejected error))) (Line next_line)
         = on_line rt next_line (step rt s' (Settle i (Rejected error)))"
proof -
  have nn: "get_prop request ''type'' \<noteq> JUndefined \<Longrightarrow> request \<noteq> JNull"
    by (auto simp: get_prop_def)
  have a1: "get_prop request ''type'' = JStr ''chat_completion'' \<Longrightarrow>
            step rt s (Line line) =
              suspend (AwaitsCall (ChatCompletion (get_prop request ''provider'')
                  (get_prop request ''model'') (get_prop request ''messages'')
                  (if get_prop request ''options'' = JUndefined then JObj []
                   else get_prop request ''options''))) s"
    using assms(1,2) nn by (simp add: step_def on_line_def handleRequest_def Let_def)
  have a2: "get_prop request ''type'' = JStr ''list_models'' \<Longrightarrow>
            step rt s (Line line)
              = suspend (AwaitsCall (ListModels (get_prop request ''provider''))) s"
    using assms(1,2) nn by (simp add: step_def on_line_def handleRequest_def Let_def)
  have a3: "get_prop request ''type'' = JStr ''list_providers'' \<Longrightarrow>
            step rt s (Line line) = suspend (AwaitsCall ListProviders) s"
    using assms(1,2) nn by (simp add: step_def on_line_def handleRequest_def Let_def)
  have b: "step rt s' (Settle i (Resolved r))
         = (resume i s')\<lparr>stdout := stdout s'
              @ JSON_stringify (JObj [(''success'', JBool True), (''data'', r)]) @ [nl]\<rparr>"
    using assms(3,4)
    by (cases c) (simp_all add: step_def sendResponse_def console_log_def handler_result_def
        handleChatCompletion_def handleListModels_def handleListProviders_def resume_def)
  have c: "step rt s' (Settle i (Rejected error))
         = (resume i s')\<lparr>stdout := stdout s'
              @ JSON_stringify (JObj [(''success'', JBool False),
                                      (''error'', JStr (message error))]) @ [nl]\<rparr>"
    using assms(3,4)
    by (cases c) (simp_all add: step_def sendResponse_def console_log_def handler_result_def
        handleChatCompletion_def handleListModels_def handleListProviders_def resume_def)
  have d: "running (step rt s' (Settle i (Rejected error)))"
    unfolding c using assms(3) by (simp add: resume_def)
  have e: "step rt (step rt s' (Settle i (Rejected error))) (Line next_line)
         = on_line rt next_line (step rt s' (Settle i (Rejected error)))"
    using d by (simp add: step_def)
  from a1 a2 a3 b c d e show ?thesis by blast
qed

theorem provider_outcome_wrapped_witness:
  "running init_bridge
   \<and> JSON_parse example_runtime chat_line = Inr chat_request
   \<and> get_prop chat_request ''type'' = JStr ''chat_completion''
   \<and> step example_runtime init_bridge (Line chat_line) =
        suspend (AwaitsCall (ChatCompletion (JStr ''openai'') (JStr ''gpt-4'') (JArr [])
           (JObj []))) init_bridge
   \<and> JSON_parse example_runtime models_line = Inr models_request
   \<and> get_prop models_request ''type'' = JStr ''list_models''
   \<and> step example_runtime init_bridge (Line models_line)
        = suspend (AwaitsCall (ListModels (JStr ''openai''))) init_bridge
   \<and> JSON_parse example_runtime list_line = Inr list_request
   \<and> get_prop list_request ''type'' = JStr ''list_providers''
   \<and> step example_runtime init_bridge (Line list_line)
        = suspend (AwaitsCall ListProviders) init_bridge
   \<and> running (suspend (AwaitsCall ListProviders) init_bridge)
   \<and> map_of (pending (suspend (AwaitsCall ListProviders) init_bridge)) 0
        = Some (AwaitsCall ListProviders)
   \<and> stdout (step example_runtime (suspend (AwaitsCall ListProviders) init_bridge)
        (Settle 0 (Resolved (JArr [JStr ''openai'', JStr ''anthropic'']))))
       = ''{\"success\":true,\"data\":[\"openai\",\"anthropic\"]}'' @ [nl]
   \<and> stdout (step example_runtime (suspend (AwaitsCall ListProviders) init_bridge)
        (Settle 0 (Rejected not_found_error)))
       = ''{\"success\":false,\"error\":\"provider not found\"}'' @ [nl]
   \<and> running (step example_runtime (suspend (AwaitsCall ListProviders) init_bridge)
        (Settle 0 (Rejected not_found_error)))
   \<and> step example_runtime
        (step example_runtime (suspend (AwaitsCall ListProviders) init_bridge)
           (Settle 0 (Rejected not_found_error))) (Line list_line)
       = on_line example_runtime list_line
           (step example_runtime (suspend (AwaitsCall ListProviders) init_bridge)
              (Settle 0 (Rejected not_found_error)))"
proof -
  let ?s' = "suspend (AwaitsCall ListProviders) init_bridge"
  have r: "running init_bridge" and f: "fresh_ids init_bridge" and n: "next_id init_bridge = 0"
    and o: "stdout init_bridge = []"
    by (simp_all add: init_bridge_def fresh_ids_def)
  have r': "running ?s'" and o': "stdout ?s' = []" using r o by (simp_all add: suspend_def)
  have m': "map_of (pending ?s') 0 = Some (AwaitsCall ListProviders)"
    using map_of_suspend[OF f, of "AwaitsCall ListProviders"] by (simp add: n)
  have p1: "JSON_parse example_runtime chat_line = Inr chat_request"
    and p2: "JSON_parse example_runtime models_line = Inr models_request"
    and p3: "JSON_parse example_runtime list_line = Inr list_request"
    by (simp_all add: example_runtime_def chat_line_def list_line_def models_line_def)
  have t1: "get_prop chat_request ''type'' = JStr ''chat_completion''"
    and t2: "get_prop models_request ''type'' = JStr ''list_models''"
    and t3: "get_prop list_request ''type'' = JStr ''list_providers''"
    by (simp_all add: get_prop_def chat_request_def models_request_def list_request_def)
  have g: "get_prop chat_request ''provider'' = JStr ''openai''"
    "get_prop chat_request ''model'' = JStr ''gpt-4''"
    "get_prop chat_request ''messages'' = JArr []"
    "get_prop chat_request ''options'' = JUndefined"
    "get_prop models_request ''provider'' = JStr ''openai''"
    by (simp_all add: get_prop_def chat_request_def models_request_def)
  note th = provider_outcome_wrapped[where error = not_found_error and next_line = list_line
        and r = "JArr [JStr ''openai'', JStr ''anthropic'']", OF r _ r' m']
  from th[OF p1] t1 g
  have a1: "step example_runtime init_bridge (Line chat_line) =
        suspend (AwaitsCall (ChatCompletion (JStr ''openai'') (JStr ''gpt-4'') (JArr [])
           (JObj []))) init_bridge"
    by simp
  from th[OF p2] t2 g
  have a2: "step example_runtime init_bridge (Line models_line)
        = suspend (AwaitsCall (ListModels (JStr ''openai''))) init_bridge"
    by simp
  from th[OF p3] t3
  have a3: "step example_runtime init_bridge (Line list_line) = ?s'"
    and b: "step example_runtime ?s' (Settle 0 (Resolved (JArr [JStr ''openai'', JStr ''anthropic''])))
         = (resume 0 ?s')\<lparr>stdout := stdout ?s'
              @ JSON_stringify (JObj [(''success'', JBool True),
                   (''data'', JArr [JStr ''openai'', JStr ''anthropic''])]) @ [nl]\<rparr>"
    and c: "step example_runtime ?s' (Settle 0 (Rejected not_found_error))
         = (resume 0 ?s')\<lparr>stdout := stdout ?s'
              @ JSON_stringify (JObj [(''success'', JBool False),
                                      (''error'', JStr (message not_found_error))]) @ [nl]\<rparr>"
    and d: "running (step example_runtime ?s' (Settle 0 (Rejected not_found_error)))"
    and e: "step example_runtime (step example_runtime ?s' (Settle 0 (Rejected not_found_error)))
              (Line list_line)
         = on_line example_runtime list_line
             (step example_runtime ?s' (Settle 0 (Rejected not_found_error)))"
    by blast+
  have b': "stdout (step example_runtime ?s'
        (Settle 0 (Resolved (JArr [JStr ''openai'', JStr ''anthropic'']))))
       = ''{\"success\":true,\"data\":[\"openai\",\"anthropic\"]}'' @ [nl]"
    unfolding b stringify_providers_example by (simp add: o')
  have c': "stdout (step example_runtime ?s' (Settle 0 (Rejected not_found_error)))
       = ''{\"success\":false,\"error\":\"provider not found\"}'' @ [nl]"
    unfolding c stringify_not_found_example by (simp add: o')
  from r p1 t1 a1 p2 t2 a2 p3 t3 a3 r' m' b' c' d e show ?thesis by blast
qed

subsection \<open>The order of responses\<close>

text \<open>
  Claim C1, as stated, fails: the listener of the \<^verbatim>\<open>line\<close> event is an \<^verbatim>\<open>async\<close>
  function that nothing waits for, so two requests are in flight together and each
  response is written when its own library call settles. Here a chat completion is
  requested first and the provider list second; the provider list settles first, and
  the first response line is the provider list.
\<close>

theorem responses_out_of_order_counterexample:
  "stdout (run example_runtime init_bridge
     [Line chat_line, Line list_line,
      Settle 1 (Resolved (JArr [JStr ''openai'', JStr ''anthropic''])),
      Settle 0 (Resolved (JStr ''hi''))])
   = ''{\"success\":true,\"data\":[\"openai\",\"anthropic\"]}'' @ [nl]
     @ ''{\"success\":true,\"data\":\"hi\"}'' @ [nl]"
  by (simp add: run_def step_def init_bridge_def on_line_def example_runtime_def chat_line_def
      list_line_def models_line_def chat_request_def list_request_def handleRequest_def
      get_prop_def Let_def suspend_def resume_def sendResponse_def console_log_def
      handler_result_def handleChatCompletion_def handleListProviders_def quote_def
      escape_char_def dq_def)

text \<open>
  Claim C1, amended. In every execution without a termination signal, the number
  of response lines written and the number of listeners still suspended add up to the
  number of lines received: once every listener has been resumed, exactly N response
  lines have been written for N request lines. When the listener of every line is
  resumed before the next line arrives (a client that waits for each response before
  it sends the next request), the output is the responses to the request lines, one
  line each, in the order of the requests. Responses to requests that are in flight
  together are written in the order in which their calls settle: the response of a
  suspended listener is appended to the output at the event that settles its call.
\<close>

theorem responses_one_per_request:
  assumes "Signal \<notin> set evs"
  shows "responses_written (run rt init_bridge evs) + length (pending (run rt init_bridge evs))
           = length (filter is_line evs)
       \<and> stdout (run rt init_bridge (serial_events rt 0 reqs))
           = concat (map (\<lambda>(line, settled).
                            JSON_stringify (response_to rt line settled) @ [nl]) reqs)
       \<and> pending (run rt init_bridge (serial_events rt 0 reqs)) = []
       \<and> (running s \<and> map_of (pending s) i = Some (AwaitsCall c) \<longrightarrow>
            stdout (step rt s (Settle i settled))
              = stdout s @ JSON_stringify (handler_result c settled) @ [nl])"
proof -
  have a: "responses_written (run rt init_bridge evs) + length (pending (run rt init_bridge evs))
           = length (filter is_line evs)"
    using run_accounting[OF well_formed_init assms, of rt]
    by (simp add: responses_written_def init_bridge_def)
  have "running init_bridge" and "fresh_ids init_bridge" and n: "next_id init_bridge = 0"
    by (simp_all add: init_bridge_def fresh_ids_def)
  from serial_in_order[OF this(1,2), of rt reqs]
  have b: "stdout (run rt init_bridge (serial_events rt 0 reqs))
           = concat (map (\<lambda>(line, settled).
                            JSON_stringify (response_to rt line settled) @ [nl]) reqs)"
    and c: "pending (run rt init_bridge (serial_events rt 0 reqs)) = []"
    by (simp_all add: n) (simp_all add: init_bridge_def)
  have d: "running s \<and> map_of (pending s) i = Some (AwaitsCall c) \<longrightarrow>
            stdout (step rt s (Settle i settled))
              = stdout s @ JSON_stringify (handler_result c settled) @ [nl]"
    by (simp add: step_def sendResponse_def console_log_def resume_def)
  from a b c d show ?thesis by blast
qed

theorem responses_one_per_request_witness:
  "Signal \<notin> set [Line chat_line, Line list_line,
        Settle 1 (Resolved (JArr [JStr ''openai'', JStr ''anthropic''])),
        Settle 0 (Resolved (JStr ''hi''))]
   \<and> responses_written (run example_runtime init_bridge
        [Line chat_line, Line list_line,
         Settle 1 (Resolved (JArr [JStr ''openai'', JStr ''anthropic''])),
         Settle 0 (Resolved (JStr ''hi''))])
      + length (pending (run example_runtime init_bridge
        [Line chat_line, Line list_line,
         Settle 1 (Resolved (JArr [JStr ''openai'', JStr ''anthropic''])),
         Settle 0 (Resolved (JStr ''hi''))])) = 2
   \<and> stdout (run example_runtime init_bridge
        (serial_events example_runtime 0
           [(chat_line, Rejected not_found_error),
            (list_line, Resolved (JArr [JStr ''openai'', JStr ''anthropic'']))]))
      = JSON_stringify (response_to example_runtime chat_line (Rejected not_found_error)) @ [nl]
        @ JSON_stringify (response_to example_runtime list_line
            (Resolved (JArr [JStr ''openai'', JStr ''anthropic'']))) @ [nl]
   \<and> pending (run example_runtime init_bridge
        (serial_events example_runtime 0
           [(chat_line, Rejected not_found_error),
            (list_line, Resolved (JArr [JStr ''openai'', JStr ''anthropic'']))])) = []
   \<and> running (suspend (AwaitsCall ListProviders) init_bridge)
   \<and> map_of (pending (suspend (AwaitsCall ListProviders) init_bridge)) 0
        = Some (AwaitsCall ListProviders)
   \<and> stdout (step example_runtime (suspend (AwaitsCall ListProviders) init_bridge)
        (Settle 0 (Resolved (JArr [JStr ''openai'', JStr ''anthropic'']))))
      = stdout (suspend (AwaitsCall ListProviders) init_bridge)
        @ JSON_stringify (handler_result ListProviders
            (Resolved (JArr [JStr ''openai'', JStr ''anthropic'']))) @ [nl]"
proof -
  let ?evs = "[Line chat_line, Line list_line,
        Settle 1 (Resolved (JArr [JStr ''openai'', JStr ''anthropic''])),
        Settle 0 (Resolved (JStr ''hi''))]"
  let ?reqs = "[(chat_line, Rejected not_found_error),
            (list_line, Resolved (JArr [JStr ''openai'', JStr ''anthropic'']))]"
  let ?s = "suspend (AwaitsCall ListProviders) init_bridge"
  have h: "Signal \<notin> set ?evs" by simp
  have f: "fresh_ids init_bridge" and n: "next_id init_bridge = 0"
    by (simp_all add: init_bridge_def fresh_ids_def)
  have r: "running ?s" by (simp add: suspend_def init_bridge_def)
  have m: "map_of (pending ?s) 0 = Some (AwaitsCall ListProviders)"
    using map_of_suspend[OF f, of "AwaitsCall ListProviders"] by (simp add: n)
  note th = responses_one_per_request[OF h, of example_runtime ?reqs ?s 0 ListProviders
      "Resolved (JArr [JStr ''openai'', JStr ''anthropic''])"]
  from th have a: "responses_written (run example_runtime init_bridge ?evs)
      + length (pending (run example_runtime init_bridge ?evs)) = 2"
    by simp
  from th have b: "stdout (run example_runtime init_bridge (serial_events example_runtime 0 ?reqs))
      = JSON_stringify (response_to example_runtime chat_line (Rejected not_found_error)) @ [nl]
        @ JSON_stringify (response_to example_runtime list_line
            (Resolved (JArr [JStr ''openai'', JStr ''anthropic'']))) @ [nl]"
    by simp
  from th have c: "pending (run example_runtime init_bridge
        (serial_events example_runtime 0 ?reqs)) = []"
    by blast
  from th r m have d: "stdout (step example_runtime ?s
        (Settle 0 (Resolved (JArr [JStr ''openai'', JStr ''anthropic'']))))
      = stdout ?s @ JSON_stringify (handler_result ListProviders
            (Resolved (JArr [JStr ''openai'', JStr ''anthropic'']))) @ [nl]"
    by blast
  from h a b c r m d show ?thesis by blast
qed

end
